theory Spec2Isabelle
  imports Complex_Main "HOL-Library.Char_ord" "HOL-Library.List_Lexorder"
begin

section \<open>Settings and mappings\<close>

text \<open>
  The embedding follows \<open>heatmap.py\<close> from top to bottom: the static tables, the cleaning
  of the site list, the boundary features, the counts and count markers, the per-province
  site layers, and then the JavaScript that the script writes into the page (the
  \<open>click_js\<close> template), modelled as state transformers over the Leaflet map.
  Python dictionaries are association lists in insertion order; Python sets are lists
  used through \<open>set\<close>.
\<close>

definition CODE_TO_NAME :: "(string \<times> string) list" where
  "CODE_TO_NAME =
     [(''AB'', ''Alberta''),
      (''BC'', ''British Columbia''),
      (''MB'', ''Manitoba''),
      (''NB'', ''New Brunswick''),
      (''NL'', ''Newfoundland and Labrador''),
      (''NS'', ''Nova Scotia''),
      (''NT'', ''Northwest Territories''),
      (''NU'', ''Nunavut''),
      (''ON'', ''Ontario''),
      (''PE'', ''Prince Edward Island''),
      (''QC'', ''Quebec''),
      (''SK'', ''Saskatchewan''),
      (''YK'', ''Yukon'')]"

definition PURPLE :: "string list" where
  "PURPLE = [''Nunavut'', ''Northwest Territories'', ''Yukon'', ''British Columbia'']"

definition GREEN :: "string list" where
  "GREEN = [''Ontario'', ''Manitoba'', ''Saskatchewan'', ''Alberta'', ''Quebec'']"

definition ORANGE :: "string list" where
  "ORANGE = [''Newfoundland and Labrador'', ''Prince Edward Island'', ''Nova Scotia'',
             ''New Brunswick'']"

definition REGION_COLOR :: "(string \<times> string) list" where
  "REGION_COLOR =
     [(''Purple Region'', ''purple''),
      (''Green Region'', ''green''),
      (''Orange Region'', ''orange'')]"

definition province_to_region :: "string \<Rightarrow> string option" where
  "province_to_region prov_name =
     (if prov_name \<in> set PURPLE then Some ''Purple Region''
      else if prov_name \<in> set GREEN then Some ''Green Region''
      else if prov_name \<in> set ORANGE then Some ''Orange Region''
      else None)"

text \<open>\<open>d.get(k, default)\<close> and \<open>d[k]\<close> on a dictionary.\<close>

datatype py_error = KeyError | ValueError

definition dict_get :: "('k \<rightharpoonup> 'v) \<Rightarrow> 'k \<Rightarrow> 'v \<Rightarrow> 'v" where
  "dict_get d k dflt = (case d k of None \<Rightarrow> dflt | Some v \<Rightarrow> v)"

definition dict_index :: "('k \<rightharpoonup> 'v) \<Rightarrow> 'k \<Rightarrow> py_error + 'v" where
  "dict_index d k = (case d k of None \<Rightarrow> Inl KeyError | Some v \<Rightarrow> Inr v)"

section \<open>The layers of the generated map\<close>

text \<open>
  Every folium element is rendered as one JavaScript variable (its \<open>get_name()\<close>), so a
  layer and the variable that holds it are identified: the base tiles, the region count
  markers, the three province count groups, the two GeoJson layers, and one feature group
  \<open>"<province> (sites + heat)"\<close> for each province that has rows in \<open>df\<close>.
\<close>

datatype layer =
    Tiles
  | region_counts_layer
  | prov_counts_purple
  | prov_counts_green
  | prov_counts_orange
  | province_poly_layer
  | region_layer
  | province_site_layer string

definition prov_counts_layer_by_region :: "(string \<times> layer) list" where
  "prov_counts_layer_by_region =
     [(''Purple Region'', prov_counts_purple),
      (''Green Region'', prov_counts_green),
      (''Orange Region'', prov_counts_orange)]"

text \<open>
  A count marker: where it stands, the number written into its badge, the badge colour and
  the tooltip. \<open>add_count_marker\<close> adds one to a feature group; the contents of all
  feature groups are kept as one list of (group, marker) pairs.
\<close>

record marker =
  location :: "real \<times> real"
  shown_count :: nat
  background :: string
  tooltip :: string

definition add_count_marker ::
  "layer \<Rightarrow> real \<Rightarrow> real \<Rightarrow> nat \<Rightarrow> string \<Rightarrow> string \<Rightarrow> (layer \<times> marker) list
     \<Rightarrow> (layer \<times> marker) list" where
  "add_count_marker feature_group lat lon count colour tip added =
     added @ [(feature_group,
       \<lparr>location = (lat, lon), shown_count = count, background = colour, tooltip = tip\<rparr>)]"

section \<open>Load and clean data\<close>

text \<open>
  One row of the sheet, with the columns the script reads. An empty cell is \<open>None\<close>.
  The coordinates are numbers (modelled as reals) or empty. A \<open>Category\<close> cell is a value
  that \<open>pd.to_numeric\<close> reads as a number, a value it cannot read (coerced to NaN), or
  empty.
\<close>

datatype category_cell = Numeric real | NonNumeric | Missing

record raw_row =
  Site_Name :: "string option"
  Site_User :: "string option"
  Latitude :: "real option"
  Longitude :: "real option"
  Category :: category_cell
  Province :: "string option"

text \<open>A row of the cleaned frame \<open>df\<close>, with the columns the script adds.\<close>

record site =
  site_name :: "string option"
  site_user :: string
  lat :: real
  lon :: real
  category :: real
  ProvCode :: string
  province_name :: string
  region :: string

definition valid_users :: "string list" where
  "valid_users = [''DFO'', ''Shared-DFO'', ''SCH'']"

definition between :: "real \<Rightarrow> real \<Rightarrow> real \<Rightarrow> bool" where
  "between x lo hi = (lo \<le> x \<and> x \<le> hi)"

text \<open>\<open>pd.to_numeric(..., errors="coerce").fillna(0)\<close> on one cell.\<close>

definition to_numeric :: "category_cell \<Rightarrow> real option" where
  "to_numeric c = (case c of Numeric x \<Rightarrow> Some x | NonNumeric \<Rightarrow> None | Missing \<Rightarrow> None)"

definition fillna :: "real option \<Rightarrow> real \<Rightarrow> real" where
  "fillna v dflt = (case v of None \<Rightarrow> dflt | Some x \<Rightarrow> x)"

text \<open>
  A Python string is kept as the bytes of its UTF-8 encoding, so equality, dictionary
  lookup and the order of sorted keys are those of the program. \<open>astype(str)\<close> prints an
  empty cell as \<open>nan\<close>. \<open>str.strip\<close> and \<open>str.upper\<close> are built-ins of Python whose
  Unicode tables are not part of the repository; the functions that use them take them as
  the parameters \<open>str_strip\<close> and \<open>str_upper\<close>, and everything proved below holds for
  whatever these two functions are.
\<close>

definition astype_str :: "string option \<Rightarrow> string" where
  "astype_str v = (case v of None \<Rightarrow> ''nan'' | Some s \<Rightarrow> s)"

definition replace :: "(string \<times> string) list \<Rightarrow> string \<Rightarrow> string" where
  "replace table v = (case map_of table v of None \<Rightarrow> v | Some w \<Rightarrow> w)"

text \<open>
  The cleaning steps of lines 89 to 110, applied to one row in the order of the script;
  \<open>None\<close> when a filter drops the row. Every step looks at one row only, so filtering
  the frame step by step is filtering the rows one by one.
\<close>

definition clean_row ::
  "(string \<Rightarrow> string) \<Rightarrow> (string \<Rightarrow> string) \<Rightarrow> raw_row \<Rightarrow> site option" where
  "clean_row str_strip str_upper r =
     (case Site_User r of
        None \<Rightarrow> None
      | Some user \<Rightarrow>
          if user \<notin> set valid_users then None
          else case (Latitude r, Longitude r) of
            (Some la, Some lo) \<Rightarrow>
              if \<not> (between la 41.7 83.1 \<and> between lo (- 141) (- 52.6)) then None
              else
                let cat = fillna (to_numeric (Category r)) 0;
                    code = replace [(''OC'', ''BC'')] 
                             (str_upper (str_strip (astype_str (Province r))));
                    pname = map_of CODE_TO_NAME code;
                    reg = Option.bind pname province_to_region
                in (case (pname, reg) of
                      (Some pn, Some rg) \<Rightarrow>
                        Some \<lparr>site_name = Site_Name r, site_user = user,
                              lat = la, lon = lo, category = cat, ProvCode = code,
                              province_name = pn, region = rg\<rparr>
                    | _ \<Rightarrow> None)
          | _ \<Rightarrow> None)"

definition df ::
  "(string \<Rightarrow> string) \<Rightarrow> (string \<Rightarrow> string) \<Rightarrow> raw_row list \<Rightarrow> site list" where
  "df str_strip str_upper sheet = List.map_filter (clean_row str_strip str_upper) sheet"

section \<open>Create map\<close>

text \<open>
  \<open>Series.mean()\<close>: the mean of a column, and NaN (here \<open>None\<close>) for a column with no
  row. \<open>folium.Map\<close> validates its location and raises \<open>ValueError\<close> when a coordinate
  is NaN; otherwise the map is created with that centre.
\<close>

definition mean :: "real list \<Rightarrow> real option" where
  "mean xs = (if xs = [] then None else Some (sum_list xs / real (length xs)))"

definition folium_Map :: "real option \<Rightarrow> real option \<Rightarrow> py_error + real \<times> real" where
  "folium_Map center_lat center_lon =
     (case (center_lat, center_lon) of
        (Some la, Some lo) \<Rightarrow> Inr (la, lo)
      | _ \<Rightarrow> Inl ValueError)"

definition START_ZOOM :: nat where
  "START_ZOOM = 4"

section \<open>Load GeoJSON\<close>

text \<open>
  A feature of \<open>ca.json\<close> is its \<open>name\<close> property and its geometry; geometries stay
  abstract. A row of \<open>prov_gdf\<close> (and a feature of \<open>provinces_geojson\<close>) has the stripped
  name, the region and the geometry. \<open>dissolve(by="region")\<close> makes one row per region, in
  the order of the sorted keys, with the union of the geometries and the first name of the
  group; the union is a parameter.
\<close>

record 'g gj_feature =
  gj_name :: string
  gj_geometry :: 'g

record 'g feature =
  props_name :: string
  props_region :: string
  geometry :: 'g

definition prov_gdf :: "(string \<Rightarrow> string) \<Rightarrow> 'g gj_feature list \<Rightarrow> 'g feature list" where
  "prov_gdf str_strip canada_gj =
     List.map_filter
       (\<lambda>f. case province_to_region (str_strip (gj_name f)) of
               None \<Rightarrow> None
             | Some reg \<Rightarrow>
                 Some \<lparr>props_name = str_strip (gj_name f), props_region = reg,
                       geometry = gj_geometry f\<rparr>)
       canada_gj"

definition groupby_keys :: "'k::linorder list \<Rightarrow> 'k list" where
  "groupby_keys ks = sort (remdups ks)"

definition regions_gdf :: "('g list \<Rightarrow> 'g) \<Rightarrow> 'g feature list \<Rightarrow> 'g feature list" where
  "regions_gdf unary_union provs =
     List.map_filter
       (\<lambda>reg. case filter (\<lambda>f. props_region f = reg) provs of
                 [] \<Rightarrow> None
               | f # fs \<Rightarrow>
                   Some \<lparr>props_name = props_name f, props_region = reg,
                         geometry = unary_union (map geometry (f # fs))\<rparr>)
       (groupby_keys (map props_region provs))"

section \<open>Counts\<close>

text \<open>
  \<open>groupby(key).size().to_dict()\<close>: the number of rows of each key that occurs; a key
  with no row is not in the dictionary.
\<close>

definition groupby_size :: "('r \<Rightarrow> 'k) \<Rightarrow> 'r list \<Rightarrow> ('k \<rightharpoonup> nat)" where
  "groupby_size key rows k =
     (let n = length (filter (\<lambda>r. key r = k) rows) in if n = 0 then None else Some n)"

definition counts_region :: "site list \<Rightarrow> (string \<rightharpoonup> nat)" where
  "counts_region d = groupby_size region d"

definition counts_prov :: "site list \<Rightarrow> (string \<times> string \<rightharpoonup> nat)" where
  "counts_prov d = groupby_size (\<lambda>r. (region r, province_name r)) d"

section \<open>Count marker layers\<close>

text \<open>Decimal digits of a count, for the f-strings of the tooltips.\<close>

fun str_nat :: "nat \<Rightarrow> string" where
  "str_nat n =
     (if n < 10 then [''0123456789'' ! n]
      else str_nat (n div 10) @ [''0123456789'' ! (n mod 10)])"

declare str_nat.simps [simp del]

text \<open>
  The two loops over \<open>regions_tmp.iterrows()\<close> and \<open>prov_tmp.iterrows()\<close>. The centroid
  of a geometry is a parameter and gives \<open>(x, y)\<close>; \<open>REGION_COLOR[reg]\<close> and
  \<open>prov_counts_layer_by_region[reg]\<close> raise \<open>KeyError\<close> on a key they do not have.
\<close>

fun region_count_markers ::
  "('g \<Rightarrow> real \<times> real) \<Rightarrow> (string \<rightharpoonup> nat) \<Rightarrow> 'g feature list \<Rightarrow> (layer \<times> marker) list
     \<Rightarrow> py_error + (layer \<times> marker) list" where
  "region_count_markers centroid cr [] added = Inr added"
| "region_count_markers centroid cr (r # rest) added =
     (let reg = props_region r;
          c = centroid (geometry r);
          count = dict_get cr reg 0
      in case dict_index (map_of REGION_COLOR) reg of
           Inl e \<Rightarrow> Inl e
         | Inr colour \<Rightarrow>
             region_count_markers centroid cr rest
               (add_count_marker region_counts_layer (snd c) (fst c) count colour
                  (reg @ '': '' @ str_nat count @ '' sites'') added))"

fun province_count_markers ::
  "('g \<Rightarrow> real \<times> real) \<Rightarrow> (string \<times> string \<rightharpoonup> nat) \<Rightarrow> 'g feature list
     \<Rightarrow> (layer \<times> marker) list \<Rightarrow> py_error + (layer \<times> marker) list" where
  "province_count_markers centroid cp [] added = Inr added"
| "province_count_markers centroid cp (pr # rest) added =
     (let reg = props_region pr;
          prov_name = props_name pr;
          c = centroid (geometry pr);
          count = dict_get cp (reg, prov_name) 0
      in case dict_index (map_of prov_counts_layer_by_region) reg of
           Inl e \<Rightarrow> Inl e
         | Inr feature_group \<Rightarrow>
             (case dict_index (map_of REGION_COLOR) reg of
                Inl e \<Rightarrow> Inl e
              | Inr colour \<Rightarrow>
                  province_count_markers centroid cp rest
                    (add_count_marker feature_group (snd c) (fst c) count colour
                       (prov_name @ '': '' @ str_nat count @ '' sites'') added)))"

text \<open>
  The script from the top down to line 195: the frame is cleaned, the map is created at
  the mean of the coordinates (line 120), the boundary features are loaded, the counts are
  taken and the two loops add the count markers, the region markers first. An exception
  ends the script, and then no marker and no page exists.
\<close>

definition count_marker_layers ::
  "(string \<Rightarrow> string) \<Rightarrow> (string \<Rightarrow> string) \<Rightarrow> ('g \<Rightarrow> real \<times> real) \<Rightarrow> ('g list \<Rightarrow> 'g)
     \<Rightarrow> raw_row list \<Rightarrow> 'g gj_feature list \<Rightarrow> py_error + (layer \<times> marker) list" where
  "count_marker_layers str_strip str_upper centroid unary_union sheet canada_gj =
     (let d = df str_strip str_upper sheet
      in case folium_Map (mean (map lat d)) (mean (map lon d)) of
           Inl e \<Rightarrow> Inl e
         | Inr m \<Rightarrow>
             let provs = prov_gdf str_strip canada_gj;
                 regions = regions_gdf unary_union provs
             in (case region_count_markers centroid (counts_region d) regions [] of
                   Inl e \<Rightarrow> Inl e
                 | Inr added \<Rightarrow> province_count_markers centroid (counts_prov d) provs added))"

section \<open>Province polygons\<close>

record path_style =
  fillColor :: string
  color :: string
  weight :: nat
  fillOpacity :: real

definition province_poly_style :: "'g feature \<Rightarrow> path_style" where
  "province_poly_style f =
     (let reg = props_region f;
          colour = dict_get (map_of REGION_COLOR) reg ''gray''
      in \<lparr>fillColor = colour, color = ''black'', weight = 1, fillOpacity = 0\<rparr>)"

section \<open>Province-specific heat map and markers\<close>

text \<open>
  For each province with rows in \<open>df\<close>, in the order of the sorted names: the heat data
  \<open>[lat, lon, weight]\<close> of its rows and one cluster marker per row (its location and the
  row its popup text is printed from).
\<close>

definition heat_data :: "site list \<Rightarrow> (real \<times> real \<times> real) list" where
  "heat_data sub = map (\<lambda>row. (lat row, lon row, if category row = 1 then 1 else 0.2)) sub"

record site_layer =
  heat :: "(real \<times> real \<times> real) list"
  cluster :: "((real \<times> real) \<times> site) list"

definition province_site_layers :: "site list \<Rightarrow> (string \<times> site_layer) list" where
  "province_site_layers d =
     map (\<lambda>prov_name.
            let sub = filter (\<lambda>row. province_name row = prov_name) d
            in (prov_name,
                \<lparr>heat = heat_data sub, cluster = map (\<lambda>row. ((lat row, lon row), row)) sub\<rparr>))
         (groupby_keys (map province_name d))"

definition prov_site_map :: "site list \<Rightarrow> (string \<times> layer) list" where
  "prov_site_map d = map (\<lambda>(prov, fg). (prov, province_site_layer prov)) (province_site_layers d)"

section \<open>The script: state of the page\<close>

text \<open>
  One sub-layer of \<open>province_poly_layer\<close>: its GeoJSON feature and its current style
  options, which \<open>layer.setStyle\<close> changes.
\<close>

record 'g province_polygon =
  feature :: "'g feature"
  options :: path_style

text \<open>
  The viewport is recorded as the last request made to the map: \<open>setView(center, zoom)\<close>,
  or \<open>fitBounds(layer.getBounds())\<close> for a polygon with the given geometry.
\<close>

datatype 'g viewport = SetView real real nat | FitBounds 'g

text \<open>
  The mutable state the script works on: the variable \<open>currentRegion\<close> (\<open>null\<close> is
  \<open>None\<close>), the set of layers attached to the Leaflet map, the province polygons with
  their styles, the viewport, and whether \<open>bringToFront()\<close> has put the province
  polygons above the region polygons.
\<close>

record 'g map_state =
  currentRegion :: "string option"
  on_map :: "layer set"
  provpoly :: "'g province_polygon list"
  view :: "'g viewport"
  provpoly_in_front :: bool

text \<open>
  What the template is filled with: the JSON object \<open>provSiteMap\<close> (province name to the
  variable of its site layer), which global variables \<open>window[...]\<close> finds populated, and
  the start view.
\<close>

record page =
  provSiteMap :: "(string \<times> layer) list"
  populated :: "layer \<Rightarrow> bool"
  center_lat :: real
  center_lon :: real

text \<open>
  The page the script writes for a cleaned frame with a given map centre: folium defines
  every layer variable before the macro runs.
\<close>

definition click_js :: "site list \<Rightarrow> real \<Rightarrow> real \<Rightarrow> page" where
  "click_js d clat clon =
     \<lparr>provSiteMap = prov_site_map d, populated = (\<lambda>v. True),
      center_lat = clat, center_lon = clon\<rparr>"

text \<open>
  The map as folium first renders it: the layers created with \<open>show=True\<close> (the default)
  are attached, those created with \<open>show=False\<close> are not; each province polygon has the
  style of \<open>province_poly_style\<close>; \<open>region_layer\<close> was added last and lies on top.
\<close>

definition initial_state :: "'g feature list \<Rightarrow> real \<Rightarrow> real \<Rightarrow> 'g map_state" where
  "initial_state provinces_geojson clat clon =
     \<lparr>currentRegion = None,
      on_map = {Tiles, region_counts_layer, province_poly_layer, region_layer},
      provpoly = map (\<lambda>f. \<lparr>feature = f, options = province_poly_style f\<rparr>) provinces_geojson,
      view = SetView clat clon START_ZOOM,
      provpoly_in_front = False\<rparr>"

section \<open>JavaScript values, exceptions and the Leaflet primitives\<close>

datatype js_error = TypeError

text \<open>
  A statement or a handler either ends normally or throws; in both cases the changes it
  has made so far stay. An exception that a handler does not catch ends that handler
  only.
\<close>

datatype 's completion = Normal 's | Thrown js_error 's

fun state_after :: "'s completion \<Rightarrow> 's" where
  "state_after (Normal s) = s"
| "state_after (Thrown e s) = s"

text \<open>
  A handle read from \<open>window\<close> is a layer object or \<open>undefined\<close>. Looking up the name
  \<open>undefined\<close> (what \<open>provSiteMap[provName]\<close> gives for a missing key) is \<open>undefined\<close>
  again.
\<close>

definition window :: "page \<Rightarrow> layer option \<Rightarrow> layer option" where
  "window pg layerName =
     (case layerName of
        None \<Rightarrow> None
      | Some l \<Rightarrow> if populated pg l then Some l else None)"

text \<open>
  Leaflet's \<open>hasLayer\<close>, \<open>addLayer\<close> and \<open>removeLayer\<close> read a property of their
  argument first, which throws a \<open>TypeError\<close> on \<open>undefined\<close>. They are methods of the
  map, and the map exists whenever a handler runs: the back control and the click handlers
  are attached through it.
\<close>

definition hasLayer :: "layer option \<Rightarrow> 'g map_state \<Rightarrow> js_error + bool" where
  "hasLayer layerObj s =
     (case layerObj of None \<Rightarrow> Inl TypeError | Some l \<Rightarrow> Inr (l \<in> on_map s))"

definition addLayer :: "layer option \<Rightarrow> 'g map_state \<Rightarrow> 'g map_state completion" where
  "addLayer layerObj s =
     (case layerObj of
        None \<Rightarrow> Thrown TypeError s
      | Some l \<Rightarrow> Normal (s\<lparr>on_map := insert l (on_map s)\<rparr>))"

definition removeLayer :: "layer option \<Rightarrow> 'g map_state \<Rightarrow> 'g map_state completion" where
  "removeLayer layerObj s =
     (case layerObj of
        None \<Rightarrow> Thrown TypeError s
      | Some l \<Rightarrow> Normal (s\<lparr>on_map := on_map s - {l}\<rparr>))"

text \<open>
  Statements run in order and the first exception ends the run; \<open>assign\<close> is a statement
  that cannot throw.
\<close>

fun statements :: "('s \<Rightarrow> 's completion) list \<Rightarrow> 's \<Rightarrow> 's completion" where
  "statements [] s = Normal s"
| "statements (c # cs) s =
     (case c s of Thrown e s' \<Rightarrow> Thrown e s' | Normal s' \<Rightarrow> statements cs s')"

definition assign :: "('s \<Rightarrow> 's) \<Rightarrow> 's \<Rightarrow> 's completion" where
  "assign f s = Normal (f s)"

section \<open>The script: layer helpers\<close>

text \<open>
  \<open>if (layerObj && map.hasLayer(layerObj)) map.removeLayer(layerObj);\<close> The \<open>&&\<close> does
  not evaluate \<open>hasLayer\<close> on a falsy handle.
\<close>

definition removeLayerIfPresent :: "layer option \<Rightarrow> 'g map_state \<Rightarrow> 'g map_state completion" where
  "removeLayerIfPresent layerObj s =
     (if layerObj = None then Normal s
      else case hasLayer layerObj s of
             Inl e \<Rightarrow> Thrown e s
           | Inr present \<Rightarrow> if present then removeLayer layerObj s else Normal s)"

definition addLayerIfMissing :: "layer option \<Rightarrow> 'g map_state \<Rightarrow> 'g map_state completion" where
  "addLayerIfMissing layerObj s =
     (if layerObj = None then Normal s
      else case hasLayer layerObj s of
             Inl e \<Rightarrow> Thrown e s
           | Inr present \<Rightarrow> if \<not> present then addLayer layerObj s else Normal s)"

text \<open>\<open>Object.keys(provSiteMap).forEach(...)\<close>: one removal per key, in key order.\<close>

definition hideAllProvinceSiteLayers :: "page \<Rightarrow> 'g map_state \<Rightarrow> 'g map_state completion" where
  "hideAllProvinceSiteLayers pg =
     statements
       (map (\<lambda>provName.
               let layerName = map_of (provSiteMap pg) provName;
                   layerObj = window pg layerName
               in removeLayerIfPresent layerObj)
            (map fst (provSiteMap pg)))"

definition showProvinceSiteLayer :: "page \<Rightarrow> string \<Rightarrow> 'g map_state \<Rightarrow> 'g map_state completion" where
  "showProvinceSiteLayer pg provName =
     statements
       [hideAllProvinceSiteLayers pg,
        (let layerName = map_of (provSiteMap pg) provName;
             layerObj = window pg layerName
         in addLayerIfMissing layerObj)]"

text \<open>
  The script names the province polygon layer by its variable, with no lookup in
  \<open>window\<close> and no guard: \<open>provpoly.eachLayer(...)\<close> and \<open>provpoly.bringToFront()\<close>
  throw when that variable holds no layer.

  \<open>setProvincePolygonVisibility\<close>: every sub-layer gets \<open>fillOpacity\<close> and \<open>weight\<close>
  from the test \<open>props.region === targetRegion\<close>; \<open>setStyle\<close> leaves the other options.
  The target is a JavaScript value: a string, or \<open>null\<close>.
\<close>

definition setProvincePolygonVisibility ::
  "page \<Rightarrow> string option \<Rightarrow> 'g map_state \<Rightarrow> 'g map_state completion" where
  "setProvincePolygonVisibility pg targetRegion s =
     (if \<not> populated pg province_poly_layer then Thrown TypeError s
      else Normal (s\<lparr>provpoly :=
        map (\<lambda>layer.
               let isIn = (Some (props_region (feature layer)) = targetRegion)
               in layer\<lparr>options := (options layer)
                    \<lparr>fillOpacity := (if isIn then 0.35 else 0),
                     weight := (if isIn then 1 else 0)\<rparr>\<rparr>)
            (provpoly s)\<rparr>))"

definition bringToFront :: "page \<Rightarrow> 'g map_state \<Rightarrow> 'g map_state completion" where
  "bringToFront pg s =
     (if \<not> populated pg province_poly_layer then Thrown TypeError s
      else Normal (s\<lparr>provpoly_in_front := True\<rparr>))"

definition hideAllProvinceCounts :: "page \<Rightarrow> 'g map_state \<Rightarrow> 'g map_state completion" where
  "hideAllProvinceCounts pg =
     statements
       [removeLayerIfPresent (window pg (Some prov_counts_purple)),
        removeLayerIfPresent (window pg (Some prov_counts_green)),
        removeLayerIfPresent (window pg (Some prov_counts_orange))]"

definition showProvinceCountsForRegion ::
  "page \<Rightarrow> string option \<Rightarrow> 'g map_state \<Rightarrow> 'g map_state completion" where
  "showProvinceCountsForRegion pg targetRegion =
     statements
       [hideAllProvinceCounts pg,
        (if targetRegion = Some ''Purple Region''
         then addLayerIfMissing (window pg (Some prov_counts_purple)) else Normal),
        (if targetRegion = Some ''Green Region''
         then addLayerIfMissing (window pg (Some prov_counts_green)) else Normal),
        (if targetRegion = Some ''Orange Region''
         then addLayerIfMissing (window pg (Some prov_counts_orange)) else Normal)]"

section \<open>The script: back button and click handlers\<close>

definition BackControl_onclick :: "page \<Rightarrow> 'g map_state \<Rightarrow> 'g map_state completion" where
  "BackControl_onclick pg =
     statements
       [assign (\<lambda>s. s\<lparr>currentRegion := None\<rparr>),
        addLayerIfMissing (window pg (Some region_counts_layer)),
        hideAllProvinceCounts pg,
        setProvincePolygonVisibility pg (Some ''__NONE__''),
        hideAllProvinceSiteLayers pg,
        assign (\<lambda>s. s\<lparr>view := SetView (center_lat pg) (center_lon pg) START_ZOOM\<rparr>)]"

text \<open>The click handler of one sub-layer of \<open>region_layer\<close>, with that sub-layer's feature.\<close>

definition region_click :: "page \<Rightarrow> 'g feature \<Rightarrow> 'g map_state \<Rightarrow> 'g map_state completion" where
  "region_click pg layer =
     (let targetRegion = Some (props_region layer)
      in statements
           [bringToFront pg,
            assign (\<lambda>s. s\<lparr>view := FitBounds (geometry layer)\<rparr>),
            removeLayerIfPresent (window pg (Some region_counts_layer)),
            showProvinceCountsForRegion pg targetRegion,
            setProvincePolygonVisibility pg targetRegion,
            hideAllProvinceSiteLayers pg])"

text \<open>
  The click handler of one sub-layer of \<open>province_poly_layer\<close>. It stores the region in
  \<open>currentRegion\<close> and reads the variable back in the calls that follow.
\<close>

definition province_click :: "page \<Rightarrow> 'g feature \<Rightarrow> 'g map_state \<Rightarrow> 'g map_state completion" where
  "province_click pg layer =
     statements
       [bringToFront pg,
        assign (\<lambda>s. s\<lparr>currentRegion := Some (props_region layer)\<rparr>),
        removeLayerIfPresent (window pg (Some region_counts_layer)),
        (\<lambda>s. showProvinceCountsForRegion pg (currentRegion s) s),
        (\<lambda>s. setProvincePolygonVisibility pg (currentRegion s) s),
        assign (\<lambda>s. s\<lparr>view := FitBounds (geometry layer)\<rparr>),
        showProvinceSiteLayer pg (props_name layer)]"

text \<open>
  Navigation events, each with the feature of the polygon that was clicked. A sequence of
  events runs one handler after the other; an exception ends the handler that threw it and
  the next event finds the map as that handler left it. The run gives the exceptions
  thrown on the way and the state reached.
\<close>

datatype 'g event = RegionClick "'g feature" | ProvinceClick "'g feature" | BackClick

fun handler :: "page \<Rightarrow> 'g event \<Rightarrow> 'g map_state \<Rightarrow> 'g map_state completion" where
  "handler pg (RegionClick layer) = region_click pg layer"
| "handler pg (ProvinceClick layer) = province_click pg layer"
| "handler pg BackClick = BackControl_onclick pg"

fun navigate :: "page \<Rightarrow> 'g event list \<Rightarrow> 'g map_state \<Rightarrow> js_error list \<times> 'g map_state" where
  "navigate pg [] s = ([], s)"
| "navigate pg (ev # events) s =
     (case handler pg ev s of
        Normal s' \<Rightarrow> navigate pg events s'
      | Thrown e s' \<Rightarrow> (case navigate pg events s' of (es, s'') \<Rightarrow> (e # es, s'')))"

text \<open>The province site layers that are attached to the map.\<close>

definition visible_site_layers :: "'g map_state \<Rightarrow> string set" where
  "visible_site_layers s = {prov. province_site_layer prov \<in> on_map s}"

section \<open>Notions used to state the results\<close>

text \<open>
  The handles that \<open>hideAllProvinceSiteLayers\<close> visits; the province count groups that
  \<open>showProvinceCountsForRegion\<close> adds for a target; the style change that
  \<open>setProvincePolygonVisibility\<close> makes to one polygon; and the invariant of the site
  layers: every site layer on the map is one that \<open>hideAllProvinceSiteLayers\<close> visits, and
  there is at most one of them.
\<close>

definition site_handles :: "page \<Rightarrow> layer set" where
  "site_handles pg =
     {l. \<exists>p\<in>set (map fst (provSiteMap pg)). window pg (map_of (provSiteMap pg) p) = Some l}"

definition counts_for :: "page \<Rightarrow> string option \<Rightarrow> layer set" where
  "counts_for pg t =
     (if t = Some ''Purple Region'' then set_option (window pg (Some prov_counts_purple)) else {})
   \<union> (if t = Some ''Green Region'' then set_option (window pg (Some prov_counts_green)) else {})
   \<union> (if t = Some ''Orange Region'' then set_option (window pg (Some prov_counts_orange)) else {})"

definition restyle :: "string option \<Rightarrow> 'g province_polygon \<Rightarrow> 'g province_polygon" where
  "restyle t layer =
     layer\<lparr>options := (options layer)
       \<lparr>fillOpacity := (if Some (props_region (feature layer)) = t then 0.35 else 0),
        weight := (if Some (props_region (feature layer)) = t then 1 else 0)\<rparr>\<rparr>"

definition sites_ok :: "page \<Rightarrow> 'g map_state \<Rightarrow> bool" where
  "sites_ok pg s =
     ((\<forall>p. province_site_layer p \<in> on_map s \<longrightarrow> province_site_layer p \<in> site_handles pg)
      \<and> (\<forall>p q. province_site_layer p \<in> on_map s \<longrightarrow> province_site_layer q \<in> on_map s
             \<longrightarrow> p = q))"

section \<open>Properties of the layer helpers\<close>

lemma removeLayerIfPresent_Some:
  "removeLayerIfPresent (Some l) s = Normal (s\<lparr>on_map := on_map s - {l}\<rparr>)"
  by (simp add: removeLayerIfPresent_def hasLayer_def removeLayer_def)

lemma addLayerIfMissing_Some:
  "addLayerIfMissing (Some l) s = Normal (s\<lparr>on_map := insert l (on_map s)\<rparr>)"
  by (simp add: addLayerIfMissing_def hasLayer_def addLayer_def insert_absorb)

lemma removeLayerIfPresent_None: "removeLayerIfPresent None s = Normal s"
  by (simp add: removeLayerIfPresent_def)

lemma addLayerIfMissing_None: "addLayerIfMissing None s = Normal s"
  by (simp add: addLayerIfMissing_def)

text \<open>
  C8. Hiding and showing are idempotent: for every handle (a layer or \<open>undefined\<close>) and
  every map state, running \<open>removeLayerIfPresent\<close> twice, or \<open>addLayerIfMissing\<close> twice,
  ends in the state that running it once ends in, so the set of layers on the map is the
  same; neither throws; and hiding a layer that is not on the map, or showing one that is,
  returns the state unchanged.
\<close>

theorem show_hide_idempotent:
  fixes s :: "'g map_state"
  shows "statements [removeLayerIfPresent h, removeLayerIfPresent h] s = removeLayerIfPresent h s
       \<and> statements [addLayerIfMissing h, addLayerIfMissing h] s = addLayerIfMissing h s
       \<and> (\<exists>s'. removeLayerIfPresent h s = Normal s') \<and> (\<exists>s'. addLayerIfMissing h s = Normal s')
       \<and> (l \<notin> on_map s \<longrightarrow> removeLayerIfPresent (Some l) s = Normal s)
       \<and> (l \<in> on_map s \<longrightarrow> addLayerIfMissing (Some l) s = Normal s)"
proof (cases h)
  case None
  then show ?thesis
    by (simp add: removeLayerIfPresent_None addLayerIfMissing_None
        removeLayerIfPresent_Some addLayerIfMissing_Some insert_absorb)
next
  case (Some k)
  then show ?thesis
    by (simp add: removeLayerIfPresent_Some addLayerIfMissing_Some insert_absorb)
qed

theorem show_hide_idempotent_witness:
  "region_counts_layer \<notin> on_map
      \<lparr>currentRegion = None, on_map = {region_layer}, provpoly = [],
       view = SetView 0 0 4 :: unit viewport, provpoly_in_front = False\<rparr>
   \<and> region_layer \<in> on_map
      \<lparr>currentRegion = None, on_map = {region_layer}, provpoly = [],
       view = SetView 0 0 4 :: unit viewport, provpoly_in_front = False\<rparr>
   \<and> removeLayerIfPresent (Some region_counts_layer)
      \<lparr>currentRegion = None, on_map = {region_layer}, provpoly = [],
       view = SetView 0 0 4 :: unit viewport, provpoly_in_front = False\<rparr>
     = Normal \<lparr>currentRegion = None, on_map = {region_layer}, provpoly = [],
       view = SetView 0 0 4 :: unit viewport, provpoly_in_front = False\<rparr>
   \<and> addLayerIfMissing (Some region_layer)
      \<lparr>currentRegion = None, on_map = {region_layer}, provpoly = [],
       view = SetView 0 0 4 :: unit viewport, provpoly_in_front = False\<rparr>
     = Normal \<lparr>currentRegion = None, on_map = {region_layer}, provpoly = [],
       view = SetView 0 0 4 :: unit viewport, provpoly_in_front = False\<rparr>"
  using show_hide_idempotent [of "Some region_counts_layer"
      "\<lparr>currentRegion = None, on_map = {region_layer}, provpoly = [],
        view = SetView 0 0 4 :: unit viewport, provpoly_in_front = False\<rparr>" region_counts_layer]
    show_hide_idempotent [of "Some region_layer"
      "\<lparr>currentRegion = None, on_map = {region_layer}, provpoly = [],
        view = SetView 0 0 4 :: unit viewport, provpoly_in_front = False\<rparr>" region_layer]
  by simp

section \<open>The handlers in closed form\<close>

lemma remove_all_handles:
  "statements (map (\<lambda>x. removeLayerIfPresent (h x)) xs) s
     = Normal (s\<lparr>on_map := on_map s - {l. \<exists>x\<in>set xs. h x = Some l}\<rparr>)"
proof (induction xs arbitrary: s)
  case Nil
  show ?case by simp
next
  case (Cons x xs)
  show ?case
  proof (cases "h x")
    case None
    then show ?thesis by (simp add: removeLayerIfPresent_None Cons.IH)
  next
    case (Some l)
    have "on_map s - {l} - {l. \<exists>x\<in>set xs. h x = Some l}
        = on_map s - {k. l = k \<or> (\<exists>x\<in>set xs. h x = Some k)}"
      by auto
    with Some show ?thesis by (simp add: removeLayerIfPresent_Some Cons.IH)
  qed
qed

lemma keys_prov_site_map: "map fst (prov_site_map d) = groupby_keys (map province_name d)"
  by (simp add: prov_site_map_def province_site_layers_def comp_def Let_def)

lemma map_of_prov_site_map:
  "map_of (prov_site_map d) p
     = (if p \<in> province_name ` set d then Some (province_site_layer p) else None)"
proof -
  have "prov_site_map d = map (\<lambda>k. (k, province_site_layer k)) (groupby_keys (map province_name d))"
    by (simp add: prov_site_map_def province_site_layers_def comp_def Let_def)
  moreover have "set (groupby_keys (map province_name d)) = province_name ` set d"
    by (simp add: groupby_keys_def)
  ultimately show ?thesis
    by (auto simp: map_of_map_restrict restrict_map_def)
qed

lemma hideAllProvinceSiteLayers_eq:
  "hideAllProvinceSiteLayers pg s = Normal (s\<lparr>on_map := on_map s - site_handles pg\<rparr>)"
  unfolding hideAllProvinceSiteLayers_def site_handles_def Let_def
  by (rule remove_all_handles)

lemma removeLayerIfPresent_eq:
  "removeLayerIfPresent h s = Normal (s\<lparr>on_map := on_map s - set_option h\<rparr>)"
  by (cases h) (simp_all add: removeLayerIfPresent_None removeLayerIfPresent_Some)

lemma addLayerIfMissing_eq:
  "addLayerIfMissing h s = Normal (s\<lparr>on_map := on_map s \<union> set_option h\<rparr>)"
  by (cases h) (simp_all add: addLayerIfMissing_None addLayerIfMissing_Some)

lemma hideAllProvinceCounts_eq:
  "hideAllProvinceCounts pg s
     = Normal (s\<lparr>on_map := on_map s - set_option (window pg (Some prov_counts_purple))
                             - set_option (window pg (Some prov_counts_green))
                             - set_option (window pg (Some prov_counts_orange))\<rparr>)"
  by (simp add: hideAllProvinceCounts_def removeLayerIfPresent_eq)

lemma showProvinceCountsForRegion_eq:
  "showProvinceCountsForRegion pg t s
     = Normal (s\<lparr>on_map := (on_map s - set_option (window pg (Some prov_counts_purple))
                             - set_option (window pg (Some prov_counts_green))
                             - set_option (window pg (Some prov_counts_orange)))
                          \<union> counts_for pg t\<rparr>)"
  by (simp add: showProvinceCountsForRegion_def hideAllProvinceCounts_eq addLayerIfMissing_eq
      counts_for_def Un_assoc)

lemma showProvinceSiteLayer_eq:
  "showProvinceSiteLayer pg p s
     = Normal (s\<lparr>on_map := (on_map s - site_handles pg)
                          \<union> set_option (window pg (map_of (provSiteMap pg) p))\<rparr>)"
  by (simp add: showProvinceSiteLayer_def hideAllProvinceSiteLayers_eq addLayerIfMissing_eq Let_def)

lemma setProvincePolygonVisibility_eq:
  "populated pg province_poly_layer \<Longrightarrow>
   setProvincePolygonVisibility pg t s = Normal (s\<lparr>provpoly := map (restyle t) (provpoly s)\<rparr>)"
  by (simp add: setProvincePolygonVisibility_def restyle_def Let_def)

lemma setProvincePolygonVisibility_throws:
  "\<not> populated pg province_poly_layer \<Longrightarrow> setProvincePolygonVisibility pg t s = Thrown TypeError s"
  by (simp add: setProvincePolygonVisibility_def)

lemma bringToFront_eq:
  "populated pg province_poly_layer \<Longrightarrow> bringToFront pg s = Normal (s\<lparr>provpoly_in_front := True\<rparr>)"
  by (simp add: bringToFront_def)

lemma bringToFront_throws:
  "\<not> populated pg province_poly_layer \<Longrightarrow> bringToFront pg s = Thrown TypeError s"
  by (simp add: bringToFront_def)

lemmas helper_eqs = removeLayerIfPresent_eq addLayerIfMissing_eq hideAllProvinceCounts_eq
  showProvinceCountsForRegion_eq showProvinceSiteLayer_eq setProvincePolygonVisibility_eq
  hideAllProvinceSiteLayers_eq bringToFront_eq assign_def

lemma region_click_eq:
  "populated pg province_poly_layer \<Longrightarrow>
   region_click pg f s
     = Normal (s\<lparr>provpoly_in_front := True,
              view := FitBounds (geometry f),
              on_map := ((on_map s - set_option (window pg (Some region_counts_layer))
                           - set_option (window pg (Some prov_counts_purple))
                           - set_option (window pg (Some prov_counts_green))
                           - set_option (window pg (Some prov_counts_orange)))
                          \<union> counts_for pg (Some (props_region f))) - site_handles pg,
              provpoly := map (restyle (Some (props_region f))) (provpoly s)\<rparr>)"
  by (simp add: region_click_def helper_eqs Let_def)

lemma province_click_eq:
  "populated pg province_poly_layer \<Longrightarrow>
   province_click pg f s
     = Normal (s\<lparr>provpoly_in_front := True,
              currentRegion := Some (props_region f),
              on_map := (((on_map s - set_option (window pg (Some region_counts_layer))
                           - set_option (window pg (Some prov_counts_purple))
                           - set_option (window pg (Some prov_counts_green))
                           - set_option (window pg (Some prov_counts_orange)))
                          \<union> counts_for pg (Some (props_region f))) - site_handles pg)
                          \<union> set_option (window pg (map_of (provSiteMap pg) (props_name f))),
              provpoly := map (restyle (Some (props_region f))) (provpoly s),
              view := FitBounds (geometry f)\<rparr>)"
  by (simp add: province_click_def helper_eqs)

lemma BackControl_onclick_eq:
  "populated pg province_poly_layer \<Longrightarrow>
   BackControl_onclick pg s
     = Normal (s\<lparr>currentRegion := None,
              on_map := ((on_map s \<union> set_option (window pg (Some region_counts_layer)))
                           - set_option (window pg (Some prov_counts_purple))
                           - set_option (window pg (Some prov_counts_green))
                           - set_option (window pg (Some prov_counts_orange))) - site_handles pg,
              provpoly := map (restyle (Some ''__NONE__'')) (provpoly s),
              view := SetView (center_lat pg) (center_lon pg) START_ZOOM\<rparr>)"
  by (simp add: BackControl_onclick_def helper_eqs)

text \<open>
  Without the province polygon layer the click handlers throw at their first statement,
  and the back handler throws at \<open>setProvincePolygonVisibility\<close>, before it hides the site
  layers and resets the view.
\<close>

lemma region_click_throws:
  "\<not> populated pg province_poly_layer \<Longrightarrow> region_click pg f s = Thrown TypeError s"
  by (simp add: region_click_def bringToFront_throws Let_def)

lemma province_click_throws:
  "\<not> populated pg province_poly_layer \<Longrightarrow> province_click pg f s = Thrown TypeError s"
  by (simp add: province_click_def bringToFront_throws)

lemma BackControl_onclick_throws:
  "\<not> populated pg province_poly_layer \<Longrightarrow>
   BackControl_onclick pg s
     = Thrown TypeError
         (s\<lparr>currentRegion := None,
            on_map := (on_map s \<union> set_option (window pg (Some region_counts_layer)))
                        - set_option (window pg (Some prov_counts_purple))
                        - set_option (window pg (Some prov_counts_green))
                        - set_option (window pg (Some prov_counts_orange))\<rparr>)"
  by (simp add: BackControl_onclick_def removeLayerIfPresent_eq addLayerIfMissing_eq
      hideAllProvinceCounts_eq assign_def setProvincePolygonVisibility_throws)

section \<open>At most one site layer on the map\<close>

lemma window_Some_iff: "(window pg n = Some l) = (n = Some l \<and> populated pg l)"
  by (cases n) (auto simp: window_def)

lemma site_lookup_handle:
  "window pg (map_of (provSiteMap pg) p) = Some l \<Longrightarrow> l \<in> site_handles pg"
proof -
  assume a: "window pg (map_of (provSiteMap pg) p) = Some l"
  then have "map_of (provSiteMap pg) p = Some l" by (simp add: window_Some_iff)
  then have "p \<in> set (map fst (provSiteMap pg))"
    by (metis map_of_eq_None_iff option.distinct(1) set_map)
  with a show ?thesis unfolding site_handles_def by blast
qed

lemma counts_for_not_site: "province_site_layer p \<notin> counts_for pg t"
  by (auto simp: counts_for_def window_Some_iff elim!: option.set_cases)

lemma handler_sites_ok:
  assumes "sites_ok pg s"
  shows "sites_ok pg (state_after (handler pg ev s))"
proof (cases "populated pg province_poly_layer")
  case True
  show ?thesis
  proof (cases ev)
    case (RegionClick f)
    with assms True show ?thesis
      by (auto simp: region_click_eq sites_ok_def counts_for_not_site)
  next
    case (ProvinceClick f)
    with assms True show ?thesis
      by (auto simp: province_click_eq sites_ok_def counts_for_not_site
          dest: site_lookup_handle elim!: option.set_cases)
  next
    case BackClick
    with assms True show ?thesis
      by (auto simp: BackControl_onclick_eq sites_ok_def window_Some_iff elim!: option.set_cases)
  qed
next
  case False
  show ?thesis
  proof (cases ev)
    case (RegionClick f)
    with assms False show ?thesis by (simp add: region_click_throws)
  next
    case (ProvinceClick f)
    with assms False show ?thesis by (simp add: province_click_throws)
  next
    case BackClick
    with assms False show ?thesis
      by (auto simp: BackControl_onclick_throws sites_ok_def window_Some_iff
          elim!: option.set_cases)
  qed
qed

lemma handler_normal:
  "populated pg province_poly_layer \<Longrightarrow> \<exists>s'. handler pg ev s = Normal s'"
  by (cases ev) (simp_all add: region_click_eq province_click_eq BackControl_onclick_eq)

lemma snd_navigate_Cons:
  "snd (navigate pg (ev # events) s) = snd (navigate pg events (state_after (handler pg ev s)))"
  by (cases "handler pg ev s") (simp_all split: prod.splits)

lemma navigate_sites_ok:
  "sites_ok pg s \<Longrightarrow> sites_ok pg (snd (navigate pg events s))"
proof (induction events arbitrary: s)
  case Nil
  then show ?case by simp
next
  case (Cons ev events)
  from Cons.IH [OF handler_sites_ok [OF Cons.prems, of ev]]
  show ?case by (simp only: snd_navigate_Cons)
qed

lemma navigate_normal:
  "populated pg province_poly_layer \<Longrightarrow> fst (navigate pg events s) = []"
proof (induction events arbitrary: s)
  case Nil
  show ?case by simp
next
  case (Cons ev events)
  from handler_normal [OF Cons.prems, of ev s] obtain s' where "handler pg ev s = Normal s'"
    by blast
  with Cons.IH [OF Cons.prems, of s'] show ?case by simp
qed

lemma initial_sites_ok: "sites_ok pg (initial_state provinces_geojson clat clon)"
  by (simp add: sites_ok_def initial_state_def)

text \<open>
  C1. From the map as first rendered, after every sequence of region clicks, province
  clicks and back clicks at most one province site layer (the feature group with the heat
  map and the marker cluster of a province) is attached to the map. A prefix of a sequence
  is a sequence, so this holds after each event. It holds for every page, whatever
  \<open>provSiteMap\<close> and the populated variables are, and whether or not a handler threw; on a
  page where the province polygon layer exists, as on every page the script writes, no
  handler throws.
\<close>

theorem at_most_one_site_layer:
  fixes provinces_geojson :: "'g feature list"
  shows "(\<forall>p q. p \<in> visible_site_layers
                     (snd (navigate pg events (initial_state provinces_geojson clat clon)))
             \<longrightarrow> q \<in> visible_site_layers
                     (snd (navigate pg events (initial_state provinces_geojson clat clon)))
             \<longrightarrow> p = q)
       \<and> (populated pg province_poly_layer
            \<longrightarrow> fst (navigate pg events (initial_state provinces_geojson clat clon)) = [])"
  using navigate_sites_ok [OF initial_sites_ok, of pg events provinces_geojson clat clon]
    navigate_normal [of pg events "initial_state provinces_geojson clat clon"]
  by (auto simp: sites_ok_def visible_site_layers_def)

lemma site_handles_click_js:
  "site_handles (click_js d clat clon) = province_site_layer ` province_name ` set d"
  by (auto simp: site_handles_def click_js_def window_Some_iff map_of_prov_site_map
      keys_prov_site_map groupby_keys_def)

lemma window_click_js: "window (click_js d clat clon) n = n"
  by (cases n) (simp_all add: window_def click_js_def)

lemma provSiteMap_click_js: "provSiteMap (click_js d clat clon) = prov_site_map d"
  by (simp add: click_js_def)

lemma populated_click_js: "populated (click_js d clat clon) l"
  by (simp add: click_js_def)

lemmas click_js_handlers =
  region_click_eq [OF populated_click_js] province_click_eq [OF populated_click_js]
  BackControl_onclick_eq [OF populated_click_js]

text \<open>Two sites, two province clicks: the second site layer replaces the first.\<close>

theorem at_most_one_site_layer_witness:
  "\<exists>s'. navigate
       (click_js
          [\<lparr>site_name = None, site_user = ''DFO'', lat = 53, lon = - 113, category = 1,
            ProvCode = ''AB'', province_name = ''Alberta'', region = ''Green Region''\<rparr>,
           \<lparr>site_name = None, site_user = ''SCH'', lat = 45, lon = - 75, category = 0,
            ProvCode = ''ON'', province_name = ''Ontario'', region = ''Green Region''\<rparr>]
          49 (- 94))
       [ProvinceClick \<lparr>props_name = ''Alberta'', props_region = ''Green Region'', geometry = ()\<rparr>,
        ProvinceClick \<lparr>props_name = ''Ontario'', props_region = ''Green Region'', geometry = ()\<rparr>]
       (initial_state
          [\<lparr>props_name = ''Alberta'', props_region = ''Green Region'', geometry = ()\<rparr>,
           \<lparr>props_name = ''Ontario'', props_region = ''Green Region'', geometry = ()\<rparr>]
          49 (- 94)) = ([], s')
     \<and> visible_site_layers s' = {''Ontario''}"
proof -
  let ?pg = "click_js
          [\<lparr>site_name = None, site_user = ''DFO'', lat = 53, lon = - 113, category = 1,
            ProvCode = ''AB'', province_name = ''Alberta'', region = ''Green Region''\<rparr>,
           \<lparr>site_name = None, site_user = ''SCH'', lat = 45, lon = - 75, category = 0,
            ProvCode = ''ON'', province_name = ''Ontario'', region = ''Green Region''\<rparr>]
          49 (- 94)"
  let ?evs = "[ProvinceClick \<lparr>props_name = ''Alberta'', props_region = ''Green Region'', geometry = ()\<rparr>,
        ProvinceClick \<lparr>props_name = ''Ontario'', props_region = ''Green Region'', geometry = ()\<rparr>]"
  let ?s0 = "initial_state
          [\<lparr>props_name = ''Alberta'', props_region = ''Green Region'', geometry = ()\<rparr>,
           \<lparr>props_name = ''Ontario'', props_region = ''Green Region'', geometry = ()\<rparr>]
          49 (- 94)"
  let ?feats = "[\<lparr>props_name = ''Alberta'', props_region = ''Green Region'', geometry = ()\<rparr>,
           \<lparr>props_name = ''Ontario'', props_region = ''Green Region'', geometry = ()\<rparr>]"
  obtain es s' where run: "navigate ?pg ?evs ?s0 = (es, s')"
    by (cases "navigate ?pg ?evs ?s0")
  note inst = at_most_one_site_layer [of ?pg ?evs ?feats 49 "- 94", unfolded run snd_conv fst_conv]
  from inst have one: "\<forall>p q. p \<in> visible_site_layers s' \<longrightarrow> q \<in> visible_site_layers s' \<longrightarrow> p = q"
    by blast
  from inst have quiet: "es = []"
    by (simp add: populated_click_js)
  from run have "''Ontario'' \<in> visible_site_layers s'"
    by (auto simp: click_js_handlers window_click_js provSiteMap_click_js
        map_of_prov_site_map visible_site_layers_def)
  with one have "visible_site_layers s' = {''Ontario''}" by blast
  with run quiet show ?thesis by blast
qed

section \<open>Clicking a province polygon\<close>

lemma handler_features:
  "map feature (provpoly (state_after (handler pg ev s))) = map feature (provpoly s)"
proof (cases "populated pg province_poly_layer")
  case True
  then show ?thesis
    by (cases ev)
      (simp_all add: region_click_eq province_click_eq BackControl_onclick_eq restyle_def comp_def)
next
  case False
  then show ?thesis
    by (cases ev)
      (simp_all add: region_click_throws province_click_throws BackControl_onclick_throws)
qed

lemma navigate_features:
  "map feature (provpoly (snd (navigate pg events s))) = map feature (provpoly s)"
proof (induction events arbitrary: s)
  case Nil
  show ?case by simp
next
  case (Cons ev events)
  show ?case
    by (simp only: snd_navigate_Cons Cons.IH handler_features)
qed

lemma navigate_snoc:
  "navigate pg (events @ [ev]) s
     = (case navigate pg events s of
          (es, s1) \<Rightarrow> (case handler pg ev s1 of
                         Normal s' \<Rightarrow> (es, s')
                       | Thrown e s' \<Rightarrow> (es @ [e], s')))"
  by (induction events arbitrary: s) (auto split: completion.splits prod.splits)

lemma set_map_filter_iff: "(y \<in> set (List.map_filter f xs)) = (\<exists>x\<in>set xs. f x = Some y)"
  by (induction xs) (auto split: option.splits)

lemma prov_gdf_region:
  "p \<in> set (prov_gdf str_strip canada_gj)
     \<Longrightarrow> province_to_region (props_name p) = Some (props_region p)"
  by (auto simp: prov_gdf_def set_map_filter_iff split: option.splits)

lemma province_to_region_cases:
  "province_to_region n = Some r
     \<Longrightarrow> r = ''Purple Region'' \<or> r = ''Green Region'' \<or> r = ''Orange Region''"
  by (auto simp: province_to_region_def split: if_splits)

lemma initial_features:
  "map feature (provpoly (initial_state fs clat clon)) = fs"
  by (simp add: initial_state_def comp_def)

text \<open>
  C2, as amended. Let \<open>p\<close> be a province polygon of the boundary data, with region
  \<open>r'\<close>. After any sequence of events from the first rendering, a click on \<open>p\<close> runs
  without an exception and ends in a state where \<open>currentRegion\<close> is \<open>r'\<close>; of the three
  province count groups exactly the one of \<open>r'\<close> is on the map; the region count layer is
  not; the province polygons are those of the boundary data and the fill opacity of a
  polygon is nonzero exactly when its region is \<open>r'\<close>; the viewport request is the bounds
  of \<open>p\<close>; and the site layers on the map are the site layer of \<open>p\<close> alone when \<open>p\<close>
  has at least one row in \<open>df\<close>, and none otherwise: the script builds a site layer only
  for the provinces that \<open>df.groupby("province_name")\<close> yields.
\<close>

theorem province_click_effects:
  fixes canada_gj :: "'g gj_feature list"
  assumes "p \<in> set (prov_gdf str_strip canada_gj)"
  shows "\<exists>s'. navigate (click_js (df str_strip str_upper sheet) clat clon)
                 (events @ [ProvinceClick p])
                 (initial_state (prov_gdf str_strip canada_gj) clat clon) = ([], s')
     \<and> currentRegion s' = Some (props_region p)
     \<and> (\<exists>l. map_of prov_counts_layer_by_region (props_region p) = Some l
            \<and> on_map s' \<inter> {prov_counts_purple, prov_counts_green, prov_counts_orange} = {l})
     \<and> region_counts_layer \<notin> on_map s'
     \<and> map feature (provpoly s') = prov_gdf str_strip canada_gj
     \<and> (\<forall>poly\<in>set (provpoly s').
           (fillOpacity (options poly) \<noteq> 0) = (props_region (feature poly) = props_region p))
     \<and> view s' = FitBounds (geometry p)
     \<and> visible_site_layers s'
         = (if props_name p \<in> province_name ` set (df str_strip str_upper sheet)
            then {props_name p} else {})"
proof -
  let ?d = "df str_strip str_upper sheet"
  let ?pg = "click_js ?d clat clon"
  let ?s0 = "initial_state (prov_gdf str_strip canada_gj) clat clon"
  obtain es s where run: "navigate ?pg events ?s0 = (es, s)"
    by (cases "navigate ?pg events ?s0")
  from navigate_normal [OF populated_click_js, of ?d clat clon events ?s0] run
  have quiet: "es = []" by simp
  from navigate_sites_ok [OF initial_sites_ok, of ?pg events "prov_gdf str_strip canada_gj" clat clon]
    run
  have ok: "sites_ok ?pg s" by simp
  define s' where "s' = s\<lparr>provpoly_in_front := True,
              currentRegion := Some (props_region p),
              on_map := (((on_map s - {region_counts_layer} - {prov_counts_purple}
                           - {prov_counts_green} - {prov_counts_orange})
                          \<union> counts_for ?pg (Some (props_region p))) - site_handles ?pg)
                          \<union> set_option (map_of (prov_site_map ?d) (props_name p)),
              provpoly := map (restyle (Some (props_region p))) (provpoly s),
              view := FitBounds (geometry p)\<rparr>"
  have step: "navigate ?pg (events @ [ProvinceClick p]) ?s0 = ([], s')"
    by (simp add: navigate_snoc run quiet click_js_handlers s'_def window_click_js
        provSiteMap_click_js)
  have reg: "props_region p = ''Purple Region'' \<or> props_region p = ''Green Region''
      \<or> props_region p = ''Orange Region''"
    using prov_gdf_region [OF assms] by (rule province_to_region_cases)
  have sh: "site_handles ?pg = province_site_layer ` province_name ` set ?d"
    by (rule site_handles_click_js)
  have c1: "currentRegion s' = Some (props_region p)" by (simp add: s'_def)
  have c2: "\<exists>l. map_of prov_counts_layer_by_region (props_region p) = Some l
            \<and> on_map s' \<inter> {prov_counts_purple, prov_counts_green, prov_counts_orange} = {l}"
    using reg
    by (auto simp: s'_def sh counts_for_def window_click_js prov_counts_layer_by_region_def
        map_of_prov_site_map split: if_splits)
  have c3: "region_counts_layer \<notin> on_map s'"
    by (auto simp: s'_def counts_for_def window_click_js map_of_prov_site_map split: if_splits)
  have c4: "map feature (provpoly s') = prov_gdf str_strip canada_gj"
    using navigate_features [of ?pg "events @ [ProvinceClick p]" ?s0]
    by (simp only: step snd_conv initial_features)
  have c5: "\<forall>poly\<in>set (provpoly s').
           (fillOpacity (options poly) \<noteq> 0) = (props_region (feature poly) = props_region p)"
    by (auto simp: s'_def restyle_def)
  have c6: "view s' = FitBounds (geometry p)" by (simp add: s'_def)
  have c7: "visible_site_layers s'
         = (if props_name p \<in> province_name ` set ?d then {props_name p} else {})"
    using ok
    by (auto simp: visible_site_layers_def s'_def sh sites_ok_def counts_for_def window_click_js
        map_of_prov_site_map split: if_splits)
  from step c1 c2 c3 c4 c5 c6 c7 show ?thesis by blast
qed

text \<open>
  The theorem at a province with one site, reached after a back click. The cells are
  stripped upper-case ASCII text, which \<open>str.strip\<close> and \<open>str.upper\<close> leave as it is, so
  the two parameters are the identity here.
\<close>

theorem province_click_effects_witness:
  "\<lparr>props_name = ''Alberta'', props_region = ''Green Region'', geometry = ()\<rparr>
     \<in> set (prov_gdf id [\<lparr>gj_name = ''Alberta'', gj_geometry = ()\<rparr>,
                         \<lparr>gj_name = ''Ontario'', gj_geometry = ()\<rparr>])
   \<and> (\<exists>s'. navigate
         (click_js
            (df id id [\<lparr>Site_Name = Some ''Wharf'', Site_User = Some ''DFO'', Latitude = Some 53,
                        Longitude = Some (- 113), Category = Numeric 1, Province = Some ''AB''\<rparr>])
            53 (- 113))
         ([BackClick] @
          [ProvinceClick \<lparr>props_name = ''Alberta'', props_region = ''Green Region'', geometry = ()\<rparr>])
         (initial_state
            (prov_gdf id [\<lparr>gj_name = ''Alberta'', gj_geometry = ()\<rparr>,
                          \<lparr>gj_name = ''Ontario'', gj_geometry = ()\<rparr>])
            53 (- 113)) = ([], s')
       \<and> currentRegion s' = Some ''Green Region''
       \<and> region_counts_layer \<notin> on_map s'
       \<and> visible_site_layers s' = {''Alberta''})"
proof -
  have h: "\<lparr>props_name = ''Alberta'', props_region = ''Green Region'', geometry = ()\<rparr>
     \<in> set (prov_gdf id [\<lparr>gj_name = ''Alberta'', gj_geometry = ()\<rparr>,
                         \<lparr>gj_name = ''Ontario'', gj_geometry = ()\<rparr>])"
    by code_simp
  have d: "''Alberta'' \<in> province_name ` set
            (df id id [\<lparr>Site_Name = Some ''Wharf'', Site_User = Some ''DFO'', Latitude = Some 53,
                        Longitude = Some (- 113), Category = Numeric 1, Province = Some ''AB''\<rparr>])"
    by code_simp
  from province_click_effects [OF h,
      of id "[\<lparr>Site_Name = Some ''Wharf'', Site_User = Some ''DFO'', Latitude = Some 53,
            Longitude = Some (- 113), Category = Numeric 1, Province = Some ''AB''\<rparr>]"
         53 "- 113" "[BackClick]"] d h
  show ?thesis by auto
qed

text \<open>
  C2 as stated fails for a province of the boundary data that has no row in \<open>df\<close>: with
  one site in Alberta, a click on Ontario runs without an exception and leaves no site
  layer on the map.
\<close>

theorem province_without_sites_counterexample:
  "map_prod id visible_site_layers
     (navigate
        (click_js
           [\<lparr>site_name = None, site_user = ''DFO'', lat = 53, lon = - 113, category = 1,
             ProvCode = ''AB'', province_name = ''Alberta'', region = ''Green Region''\<rparr>]
           53 (- 113))
        [ProvinceClick \<lparr>props_name = ''Ontario'', props_region = ''Green Region'', geometry = ()\<rparr>]
        (initial_state
           [\<lparr>props_name = ''Alberta'', props_region = ''Green Region'', geometry = ()\<rparr>,
            \<lparr>props_name = ''Ontario'', props_region = ''Green Region'', geometry = ()\<rparr>]
           53 (- 113)))
   = ([], {})"
  by (auto simp: click_js_handlers window_click_js provSiteMap_click_js
      map_of_prov_site_map visible_site_layers_def site_handles_click_js counts_for_def
      initial_state_def)

section \<open>Clicking a region polygon\<close>

text \<open>
  C3. The handler of a region polygon never assigns \<open>currentRegion\<close>: after a click on
  the Green region from the first rendering the variable is still \<open>null\<close>, where the
  province handler stores the region and the back handler resets it.
\<close>

theorem region_click_currentRegion_null:
  "map_prod id currentRegion
     (navigate
        (click_js
           [\<lparr>site_name = None, site_user = ''DFO'', lat = 45, lon = - 75, category = 1,
             ProvCode = ''ON'', province_name = ''Ontario'', region = ''Green Region''\<rparr>]
           45 (- 75))
        [RegionClick \<lparr>props_name = ''Ontario'', props_region = ''Green Region'', geometry = ()\<rparr>]
        (initial_state
           [\<lparr>props_name = ''Ontario'', props_region = ''Green Region'', geometry = ()\<rparr>]
           45 (- 75)))
   = ([], None)"
  by (simp add: click_js_handlers initial_state_def)

section \<open>Region click followed by back\<close>

text \<open>
  C4 as stated fails on the polygon styles: after a region click and a back click the
  province polygons are not in the style they had when the map was first rendered.
\<close>

theorem round_trip_style_counterexample:
  "map_prod id provpoly
     (navigate
        (click_js
           [\<lparr>site_name = None, site_user = ''DFO'', lat = 45, lon = - 75, category = 1,
             ProvCode = ''ON'', province_name = ''Ontario'', region = ''Green Region''\<rparr>]
           45 (- 75))
        [RegionClick \<lparr>props_name = ''Ontario'', props_region = ''Green Region'', geometry = ()\<rparr>,
         BackClick]
        (initial_state
           [\<lparr>props_name = ''Ontario'', props_region = ''Green Region'', geometry = ()\<rparr>]
           45 (- 75)))
   \<noteq> ([], provpoly
        (initial_state
           [\<lparr>props_name = ''Ontario'', props_region = ''Green Region'', geometry = ()\<rparr>]
           45 (- 75)))"
  by (simp add: click_js_handlers initial_state_def restyle_def province_poly_style_def)

text \<open>
  C4, as amended. From the first rendering, a click on any region polygon followed by a
  click on the back control runs without an exception and restores the set of layers on
  the map, the viewport request (centre and zoom) and \<open>currentRegion\<close>, and for every
  province polygon of the boundary data its feature, fill colour, stroke colour and fill
  opacity. The stroke weight is not restored: it is 0 for every province polygon
  afterwards and was 1 at the first rendering, because \<open>setProvincePolygonVisibility\<close>
  sets \<open>weight\<close> to 0 for a polygon outside the target region.
\<close>

theorem region_back_round_trip:
  fixes canada_gj :: "'g gj_feature list"
  shows "\<exists>s'. navigate (click_js d clat clon) [RegionClick r, BackClick]
                 (initial_state (prov_gdf str_strip canada_gj) clat clon) = ([], s')
     \<and> on_map s' = on_map (initial_state (prov_gdf str_strip canada_gj) clat clon)
     \<and> view s' = view (initial_state (prov_gdf str_strip canada_gj) clat clon)
     \<and> currentRegion s' = currentRegion (initial_state (prov_gdf str_strip canada_gj) clat clon)
     \<and> map (\<lambda>poly. (feature poly, fillColor (options poly), color (options poly),
                      fillOpacity (options poly))) (provpoly s')
         = map (\<lambda>poly. (feature poly, fillColor (options poly), color (options poly),
                      fillOpacity (options poly)))
             (provpoly (initial_state (prov_gdf str_strip canada_gj) clat clon))
     \<and> map (\<lambda>poly. weight (options poly)) (provpoly s')
         = replicate (length (prov_gdf str_strip canada_gj)) 0
     \<and> map (\<lambda>poly. weight (options poly))
           (provpoly (initial_state (prov_gdf str_strip canada_gj) clat clon))
         = replicate (length (prov_gdf str_strip canada_gj)) 1"
proof -
  let ?pg = "click_js d clat clon"
  let ?s0 = "initial_state (prov_gdf str_strip canada_gj) clat clon"
  obtain s1 where r1: "region_click ?pg r ?s0 = Normal s1"
    and m1: "on_map s1 = ((on_map ?s0 - set_option (window ?pg (Some region_counts_layer))
                           - set_option (window ?pg (Some prov_counts_purple))
                           - set_option (window ?pg (Some prov_counts_green))
                           - set_option (window ?pg (Some prov_counts_orange)))
                          \<union> counts_for ?pg (Some (props_region r))) - site_handles ?pg"
    and p1: "provpoly s1 = map (restyle (Some (props_region r))) (provpoly ?s0)"
    by (simp add: click_js_handlers)
  obtain s' where r2: "BackControl_onclick ?pg s1 = Normal s'"
    and m2: "on_map s' = ((on_map s1 \<union> set_option (window ?pg (Some region_counts_layer)))
                           - set_option (window ?pg (Some prov_counts_purple))
                           - set_option (window ?pg (Some prov_counts_green))
                           - set_option (window ?pg (Some prov_counts_orange))) - site_handles ?pg"
    and p2: "provpoly s' = map (restyle (Some ''__NONE__'')) (provpoly s1)"
    and v2: "view s' = SetView (center_lat ?pg) (center_lon ?pg) START_ZOOM"
    and c2: "currentRegion s' = None"
    by (simp add: click_js_handlers)
  have sh: "site_handles ?pg = province_site_layer ` province_name ` set d"
    by (rule site_handles_click_js)
  have none: "\<forall>x\<in>set (prov_gdf str_strip canada_gj). props_region x \<noteq> ''__NONE__''"
    by (auto dest!: prov_gdf_region province_to_region_cases)
  have run: "navigate ?pg [RegionClick r, BackClick] ?s0 = ([], s')"
    by (simp add: r1 r2)
  have a: "on_map s' = on_map ?s0"
    unfolding m2 m1
    by (auto simp: sh initial_state_def counts_for_def window_click_js split: if_splits)
  have b: "view s' = view ?s0"
    by (simp add: v2 click_js_def initial_state_def)
  have c: "currentRegion s' = currentRegion ?s0"
    by (simp add: c2 initial_state_def)
  have d: "map (\<lambda>poly. (feature poly, fillColor (options poly), color (options poly),
                      fillOpacity (options poly))) (provpoly s')
         = map (\<lambda>poly. (feature poly, fillColor (options poly), color (options poly),
                      fillOpacity (options poly))) (provpoly ?s0)"
    using none
    by (simp add: p2 p1 initial_state_def restyle_def province_poly_style_def comp_def Let_def)
  have e: "map (\<lambda>poly. weight (options poly)) (provpoly s')
         = replicate (length (prov_gdf str_strip canada_gj)) 0"
    using none
    by (simp add: p2 p1 initial_state_def restyle_def comp_def flip: map_replicate_const)
  have f: "map (\<lambda>poly. weight (options poly)) (provpoly ?s0)
         = replicate (length (prov_gdf str_strip canada_gj)) 1"
    by (simp add: initial_state_def province_poly_style_def comp_def map_replicate_const Let_def)
  from run a b c d e f show ?thesis by blast
qed

section \<open>Handles that are not populated\<close>








section \<open>Counts of regions and provinces\<close>

lemma dict_get_groupby_size:
  "dict_get (groupby_size key rows) k 0 = length (filter (\<lambda>r. key r = k) rows)"
  by (simp add: dict_get_def groupby_size_def Let_def)

lemma clean_row_Some:
  assumes "clean_row str_strip str_upper r = Some st"
  shows "Site_User r = Some (site_user st)" "site_user st \<in> set valid_users"
    "Latitude r = Some (lat st)" "Longitude r = Some (lon st)"
    "category st = fillna (to_numeric (Category r)) 0"
    "province_to_region (province_name st) = Some (region st)"
    "site_name st = Site_Name r"
  using assms
  by (auto simp: clean_row_def Let_def split: option.splits if_splits prod.splits)

lemma df_iff:
  "(st \<in> set (df str_strip str_upper sheet))
     = (\<exists>r\<in>set sheet. clean_row str_strip str_upper r = Some st)"
  by (simp add: df_def set_map_filter_iff)







lemma map_of_keyed:
  "map_of (map (\<lambda>k. (k, F k)) ks) p = (if p \<in> set ks then Some (F p) else None)"
  by (induction ks) auto

lemma province_site_layers_lookup:
  "map_of (province_site_layers d) p
     = (if p \<in> province_name ` set d
        then Some \<lparr>heat = heat_data (filter (\<lambda>row. province_name row = p) d),
                   cluster = map (\<lambda>row. ((lat row, lon row), row))
                               (filter (\<lambda>row. province_name row = p) d)\<rparr>
        else None)"
  by (simp add: province_site_layers_def Let_def map_of_keyed groupby_keys_def)

lemma province_site_layers_mem:
  "((p, lay) \<in> set (province_site_layers d))
     = (p \<in> province_name ` set d
        \<and> lay = \<lparr>heat = heat_data (filter (\<lambda>row. province_name row = p) d),
                   cluster = map (\<lambda>row. ((lat row, lon row), row))
                               (filter (\<lambda>row. province_name row = p) d)\<rparr>)"
  by (auto simp: province_site_layers_def Let_def groupby_keys_def)

lemma weight_of_cell:
  "(if fillna (to_numeric c) 0 = 1 then 1 else 0.2)
     = (case c of Numeric x \<Rightarrow> if x = 1 then 1 else 0.2 | NonNumeric \<Rightarrow> 0.2 | Missing \<Rightarrow> (0.2::real))"
  by (cases c) (simp_all add: fillna_def to_numeric_def)

section \<open>Heat weights\<close>

text \<open>
  C6. The weight of a heat point is 1 when the category of its row is the number 1, and
  0.2 otherwise: for any other number (0 and 2 among them), and for a category that is
  missing or not a number, which \<open>fillna(0)\<close> turns into 0 first. Every row of the sheet
  that survives the cleaning has a heat point with this weight, at its coordinates, in the
  site layer of its province; and every heat point of every site layer is one of these.
\<close>

theorem heat_weight_two_tier:
  "(\<forall>r\<in>set sheet. \<forall>st. clean_row str_strip str_upper r = Some st \<longrightarrow>
      (\<exists>lay. map_of (province_site_layers (df str_strip str_upper sheet)) (province_name st) = Some lay
         \<and> (lat st, lon st,
             (case Category r of
                Numeric x \<Rightarrow> if x = 1 then 1 else 0.2
              | NonNumeric \<Rightarrow> 0.2
              | Missing \<Rightarrow> 0.2)) \<in> set (heat lay)))
   \<and> (\<forall>(prov, lay)\<in>set (province_site_layers (df str_strip str_upper sheet)). \<forall>(la, lo, w)\<in>set (heat lay).
        \<exists>r\<in>set sheet. \<exists>st. clean_row str_strip str_upper r = Some st \<and> province_name st = prov
          \<and> Latitude r = Some la \<and> Longitude r = Some lo
          \<and> w = (case Category r of
                    Numeric x \<Rightarrow> if x = 1 then 1 else 0.2
                  | NonNumeric \<Rightarrow> 0.2
                  | Missing \<Rightarrow> 0.2))"
proof (intro conjI ballI allI impI)
  fix r st
  assume r: "r \<in> set sheet" and c: "clean_row str_strip str_upper r = Some st"
  then have m: "st \<in> set (df str_strip str_upper sheet)" by (auto simp: df_iff)
  let ?lay = "\<lparr>heat = heat_data (filter (\<lambda>row. province_name row = province_name st) (df str_strip str_upper sheet)),
               cluster = map (\<lambda>row. ((lat row, lon row), row))
                           (filter (\<lambda>row. province_name row = province_name st) (df str_strip str_upper sheet))\<rparr>"
  have "map_of (province_site_layers (df str_strip str_upper sheet)) (province_name st) = Some ?lay"
    using m by (simp add: province_site_layers_lookup)
  moreover have "(lat st, lon st,
             (case Category r of
                Numeric x \<Rightarrow> if x = 1 then 1 else 0.2
              | NonNumeric \<Rightarrow> 0.2
              | Missing \<Rightarrow> 0.2)) \<in> set (heat ?lay)"
    using m clean_row_Some(5) [OF c]
    by (auto simp: heat_data_def weight_of_cell [symmetric] intro!: image_eqI [where x = st])
  ultimately show "\<exists>lay. map_of (province_site_layers (df str_strip str_upper sheet)) (province_name st) = Some lay
         \<and> (lat st, lon st,
             (case Category r of
                Numeric x \<Rightarrow> if x = 1 then 1 else 0.2
              | NonNumeric \<Rightarrow> 0.2
              | Missing \<Rightarrow> 0.2)) \<in> set (heat lay)"
    by blast
next
  fix pl
  assume pl: "pl \<in> set (province_site_layers (df str_strip str_upper sheet))"
  show "case pl of (prov, lay) \<Rightarrow> \<forall>(la, lo, w)\<in>set (heat lay).
        \<exists>r\<in>set sheet. \<exists>st. clean_row str_strip str_upper r = Some st \<and> province_name st = prov
          \<and> Latitude r = Some la \<and> Longitude r = Some lo
          \<and> w = (case Category r of
                    Numeric x \<Rightarrow> if x = 1 then 1 else 0.2
                  | NonNumeric \<Rightarrow> 0.2
                  | Missing \<Rightarrow> 0.2)"
  proof (cases pl)
    case (Pair prov lay)
    with pl have lay: "heat lay = heat_data (filter (\<lambda>row. province_name row = prov) (df str_strip str_upper sheet))"
      by (simp add: province_site_layers_mem)
    have "\<exists>r\<in>set sheet. \<exists>st. clean_row str_strip str_upper r = Some st \<and> province_name st = prov
          \<and> Latitude r = Some la \<and> Longitude r = Some lo
          \<and> w = (case Category r of
                    Numeric x \<Rightarrow> if x = 1 then 1 else 0.2
                  | NonNumeric \<Rightarrow> 0.2
                  | Missing \<Rightarrow> 0.2)"
      if "(la, lo, w) \<in> set (heat lay)" for la lo w
    proof -
      from that lay obtain st where st: "st \<in> set (df str_strip str_upper sheet)" "province_name st = prov"
        and e: "la = lat st" "lo = lon st" "w = (if category st = 1 then 1 else 0.2)"
        by (auto simp: heat_data_def)
      from st(1) obtain r where r: "r \<in> set sheet" "clean_row str_strip str_upper r = Some st"
        by (auto simp: df_iff)
      from clean_row_Some(3,4,5) [OF r(2)] e
      have "Latitude r = Some la" "Longitude r = Some lo"
        "w = (case Category r of
                    Numeric x \<Rightarrow> if x = 1 then 1 else 0.2
                  | NonNumeric \<Rightarrow> 0.2
                  | Missing \<Rightarrow> 0.2)"
        by (simp_all add: weight_of_cell [symmetric])
      with r st(2) show ?thesis by blast
    qed
    with Pair show ?thesis by auto
  qed
qed


text \<open>
  A row with a category that is not a number, next to one with category 1. The province
  codes are stripped upper-case ASCII text, so the two string parameters are the identity
  here.
\<close>

theorem heat_weight_two_tier_witness:
  "\<lparr>Site_Name = None, Site_User = Some ''SCH'', Latitude = Some 45, Longitude = Some (- 75),
     Category = NonNumeric, Province = Some ''ON''\<rparr>
     \<in> set [\<lparr>Site_Name = None, Site_User = Some ''DFO'', Latitude = Some 44, Longitude = Some (- 79),
              Category = Numeric 1, Province = Some ''ON''\<rparr>,
            \<lparr>Site_Name = None, Site_User = Some ''SCH'', Latitude = Some 45, Longitude = Some (- 75),
              Category = NonNumeric, Province = Some ''ON''\<rparr>]
   \<and> clean_row id id \<lparr>Site_Name = None, Site_User = Some ''SCH'', Latitude = Some 45,
                 Longitude = Some (- 75), Category = NonNumeric, Province = Some ''ON''\<rparr>
       = Some \<lparr>site_name = None, site_user = ''SCH'', lat = 45, lon = - 75, category = 0,
                ProvCode = ''ON'', province_name = ''Ontario'', region = ''Green Region''\<rparr>
   \<and> (\<exists>lay. map_of
          (province_site_layers
             (df id id [\<lparr>Site_Name = None, Site_User = Some ''DFO'', Latitude = Some 44,
                    Longitude = Some (- 79), Category = Numeric 1, Province = Some ''ON''\<rparr>,
                  \<lparr>Site_Name = None, Site_User = Some ''SCH'', Latitude = Some 45,
                    Longitude = Some (- 75), Category = NonNumeric, Province = Some ''ON''\<rparr>]))
          ''Ontario'' = Some lay
        \<and> (45, - 75, 0.2) \<in> set (heat lay))"
proof -
  let ?r = "\<lparr>Site_Name = None, Site_User = Some ''SCH'', Latitude = Some 45,
              Longitude = Some (- 75), Category = NonNumeric, Province = Some ''ON''\<rparr>"
  let ?sheet = "[\<lparr>Site_Name = None, Site_User = Some ''DFO'', Latitude = Some 44,
                   Longitude = Some (- 79), Category = Numeric 1, Province = Some ''ON''\<rparr>, ?r]"
  let ?st = "\<lparr>site_name = None, site_user = ''SCH'', lat = 45, lon = - 75, category = 0,
                ProvCode = ''ON'', province_name = ''Ontario'', region = ''Green Region''\<rparr>"
  have m: "?r \<in> set ?sheet" by simp
  have c: "clean_row id id ?r = Some ?st" by code_simp
  from heat_weight_two_tier [where sheet = ?sheet and str_strip = id and str_upper = id] m c
  have "\<exists>lay. map_of (province_site_layers (df id id ?sheet)) (province_name ?st) = Some lay
         \<and> (lat ?st, lon ?st,
             (case Category ?r of
                Numeric x \<Rightarrow> if x = 1 then 1 else 0.2
              | NonNumeric \<Rightarrow> 0.2
              | Missing \<Rightarrow> 0.2)) \<in> set (heat lay)"
    by blast
  then have "\<exists>lay. map_of (province_site_layers (df id id ?sheet)) ''Ontario'' = Some lay
        \<and> (45, - 75, 0.2) \<in> set (heat lay)"
    by simp
  with m c show ?thesis by blast
qed

section \<open>The site-user filter\<close>

lemma map_filter_filter:
  "(\<And>x. \<not> P x \<Longrightarrow> f x = None) \<Longrightarrow> List.map_filter f (filter P xs) = List.map_filter f xs"
  by (induction xs) (auto split: option.splits)

lemma df_filter_users:
  "df str_strip str_upper sheet = df str_strip str_upper (filter (\<lambda>r. Site_User r \<in> Some ` set valid_users) sheet)"
proof -
  have "clean_row str_strip str_upper r = None" if "Site_User r \<notin> Some ` set valid_users" for r
    using that by (auto simp: clean_row_def split: option.splits)
  then show ?thesis
    unfolding df_def by (simp add: map_filter_filter)
qed

text \<open>
  C10. A row whose site-user cell is not exactly \<open>DFO\<close>, \<open>Shared-DFO\<close> or \<open>SCH\<close> (an
  empty cell included) is dropped by the cleaning: every row of \<open>df\<close> has one of the three
  tags, and \<open>df\<close> is the same frame as the one computed from the sheet without those rows.
  So the region counts, the province counts and the site layers (heat data and marker
  clusters), which are computed from \<open>df\<close> alone, are the same as without them.
\<close>

theorem other_users_are_excluded:
  "(\<forall>r. Site_User r \<notin> Some ` set valid_users \<longrightarrow> clean_row str_strip str_upper r = None)
   \<and> (\<forall>st\<in>set (df str_strip str_upper sheet). site_user st \<in> set valid_users)
   \<and> df str_strip str_upper sheet = df str_strip str_upper (filter (\<lambda>r. Site_User r \<in> Some ` set valid_users) sheet)
   \<and> counts_region (df str_strip str_upper sheet)
       = counts_region (df str_strip str_upper (filter (\<lambda>r. Site_User r \<in> Some ` set valid_users) sheet))
   \<and> counts_prov (df str_strip str_upper sheet)
       = counts_prov (df str_strip str_upper (filter (\<lambda>r. Site_User r \<in> Some ` set valid_users) sheet))
   \<and> province_site_layers (df str_strip str_upper sheet)
       = province_site_layers (df str_strip str_upper (filter (\<lambda>r. Site_User r \<in> Some ` set valid_users) sheet))"
proof -
  have a: "\<forall>r. Site_User r \<notin> Some ` set valid_users \<longrightarrow> clean_row str_strip str_upper r = None"
    by (auto simp: clean_row_def split: option.splits)
  have b: "\<forall>st\<in>set (df str_strip str_upper sheet). site_user st \<in> set valid_users"
    by (auto simp: df_iff dest: clean_row_Some(2))
  have c: "df str_strip str_upper sheet = df str_strip str_upper (filter (\<lambda>r. Site_User r \<in> Some ` set valid_users) sheet)"
    by (rule df_filter_users)
  from a b c show ?thesis by metis
qed

text \<open>
  The tag is compared as it is written: \<open>dfo\<close> in lower case is not a valid user. The
  province codes are stripped upper-case ASCII text, so the two string parameters are the
  identity here.
\<close>

theorem other_users_are_excluded_witness:
  "Site_User \<lparr>Site_Name = None, Site_User = Some ''dfo'', Latitude = Some 45,
               Longitude = Some (- 75), Category = Numeric 1, Province = Some ''ON''\<rparr>
     \<notin> Some ` set valid_users
   \<and> clean_row id id \<lparr>Site_Name = None, Site_User = Some ''dfo'', Latitude = Some 45,
                 Longitude = Some (- 75), Category = Numeric 1, Province = Some ''ON''\<rparr> = None
   \<and> site_user \<lparr>site_name = None, site_user = ''Shared-DFO'', lat = 45, lon = - 75, category = 1,
                 ProvCode = ''ON'', province_name = ''Ontario'', region = ''Green Region''\<rparr>
       \<in> set valid_users
   \<and> df id id [\<lparr>Site_Name = None, Site_User = Some ''dfo'', Latitude = Some 45,
           Longitude = Some (- 75), Category = Numeric 1, Province = Some ''ON''\<rparr>,
         \<lparr>Site_Name = None, Site_User = Some ''Shared-DFO'', Latitude = Some 45,
           Longitude = Some (- 75), Category = Numeric 1, Province = Some ''ON''\<rparr>]
     = [\<lparr>site_name = None, site_user = ''Shared-DFO'', lat = 45, lon = - 75, category = 1,
          ProvCode = ''ON'', province_name = ''Ontario'', region = ''Green Region''\<rparr>]"
proof -
  let ?bad = "\<lparr>Site_Name = None, Site_User = Some ''dfo'', Latitude = Some 45,
               Longitude = Some (- 75), Category = Numeric 1, Province = Some ''ON''\<rparr>"
  let ?good = "\<lparr>Site_Name = None, Site_User = Some ''Shared-DFO'', Latitude = Some 45,
           Longitude = Some (- 75), Category = Numeric 1, Province = Some ''ON''\<rparr>"
  let ?st = "\<lparr>site_name = None, site_user = ''Shared-DFO'', lat = 45, lon = - 75, category = 1,
                 ProvCode = ''ON'', province_name = ''Ontario'', region = ''Green Region''\<rparr>"
  have h: "Site_User ?bad \<notin> Some ` set valid_users"
    by (simp add: valid_users_def)
  have g: "Site_User ?good \<in> Some ` set valid_users"
    by (simp add: valid_users_def)
  have d: "df id id [?good] = [?st]" by code_simp
  from other_users_are_excluded [where sheet = "[?bad, ?good]" and str_strip = id and str_upper = id] h g d
  have "clean_row id id ?bad = None" "df id id [?bad, ?good] = [?st]"
    by simp_all
  moreover from other_users_are_excluded [where sheet = "[?bad, ?good]" and str_strip = id and str_upper = id] \<open>df id id [?bad, ?good] = [?st]\<close>
  have "site_user ?st \<in> set valid_users" by simp
  ultimately show ?thesis using h by blast
qed

section \<open>Count markers of provinces and regions without sites\<close>

lemma region_lookups:
  assumes "r = ''Purple Region'' \<or> r = ''Green Region'' \<or> r = ''Orange Region''"
  shows "\<exists>l colour. map_of prov_counts_layer_by_region r = Some l
           \<and> map_of REGION_COLOR r = Some colour"
  using assms by (auto simp: prov_counts_layer_by_region_def REGION_COLOR_def)

lemma province_count_markers_closed:
  assumes "\<forall>pr\<in>set fs. props_region pr = ''Purple Region'' \<or> props_region pr = ''Green Region''
             \<or> props_region pr = ''Orange Region''"
  shows "\<exists>ms. province_count_markers c cp fs added = Inr (added @ ms)
     \<and> (\<forall>pr\<in>set fs. \<exists>l colour.
           map_of prov_counts_layer_by_region (props_region pr) = Some l
         \<and> map_of REGION_COLOR (props_region pr) = Some colour
         \<and> (l, \<lparr>location = (snd (c (geometry pr)), fst (c (geometry pr))),
                 shown_count = dict_get cp (props_region pr, props_name pr) 0,
                 background = colour,
                 tooltip = props_name pr @ '': ''
                   @ str_nat (dict_get cp (props_region pr, props_name pr) 0) @ '' sites''\<rparr>)
             \<in> set ms)"
  using assms
proof (induction fs arbitrary: added)
  case Nil
  show ?case by simp
next
  case (Cons pr fs)
  from Cons.prems obtain l colour
    where l: "map_of prov_counts_layer_by_region (props_region pr) = Some l"
      and k: "map_of REGION_COLOR (props_region pr) = Some colour"
    using region_lookups [of "props_region pr"] by auto
  let ?m = "(l, \<lparr>location = (snd (c (geometry pr)), fst (c (geometry pr))),
                 shown_count = dict_get cp (props_region pr, props_name pr) 0,
                 background = colour,
                 tooltip = props_name pr @ '': ''
                   @ str_nat (dict_get cp (props_region pr, props_name pr) 0) @ '' sites''\<rparr>)"
  from Cons.prems have rest: "\<forall>pr\<in>set fs. props_region pr = ''Purple Region''
      \<or> props_region pr = ''Green Region'' \<or> props_region pr = ''Orange Region''"
    by simp
  from Cons.IH [OF rest, of "added @ [?m]"] obtain ms
    where run: "province_count_markers c cp fs (added @ [?m]) = Inr ((added @ [?m]) @ ms)"
      and each: "\<forall>pr\<in>set fs. \<exists>l colour.
           map_of prov_counts_layer_by_region (props_region pr) = Some l
         \<and> map_of REGION_COLOR (props_region pr) = Some colour
         \<and> (l, \<lparr>location = (snd (c (geometry pr)), fst (c (geometry pr))),
                 shown_count = dict_get cp (props_region pr, props_name pr) 0,
                 background = colour,
                 tooltip = props_name pr @ '': ''
                   @ str_nat (dict_get cp (props_region pr, props_name pr) 0) @ '' sites''\<rparr>)
             \<in> set ms"
    by blast
  have step: "province_count_markers c cp (pr # fs) added = Inr (added @ (?m # ms))"
    using run by (simp add: Let_def l k dict_index_def add_count_marker_def)
  have "\<forall>pr'\<in>set (pr # fs). \<exists>l colour.
           map_of prov_counts_layer_by_region (props_region pr') = Some l
         \<and> map_of REGION_COLOR (props_region pr') = Some colour
         \<and> (l, \<lparr>location = (snd (c (geometry pr')), fst (c (geometry pr'))),
                 shown_count = dict_get cp (props_region pr', props_name pr') 0,
                 background = colour,
                 tooltip = props_name pr' @ '': ''
                   @ str_nat (dict_get cp (props_region pr', props_name pr') 0) @ '' sites''\<rparr>)
             \<in> set (?m # ms)"
    using each l k by auto
  with step show ?case by blast
qed

lemma region_count_markers_closed:
  assumes "\<forall>r\<in>set fs. props_region r = ''Purple Region'' \<or> props_region r = ''Green Region''
             \<or> props_region r = ''Orange Region''"
  shows "\<exists>ms. region_count_markers c cr fs added = Inr (added @ ms)
     \<and> (\<forall>r\<in>set fs. \<exists>colour.
           map_of REGION_COLOR (props_region r) = Some colour
         \<and> (region_counts_layer,
             \<lparr>location = (snd (c (geometry r)), fst (c (geometry r))),
              shown_count = dict_get cr (props_region r) 0,
              background = colour,
              tooltip = props_region r @ '': ''
                @ str_nat (dict_get cr (props_region r) 0) @ '' sites''\<rparr>)
             \<in> set ms)"
  using assms
proof (induction fs arbitrary: added)
  case Nil
  show ?case by simp
next
  case (Cons r fs)
  from Cons.prems obtain colour
    where k: "map_of REGION_COLOR (props_region r) = Some colour"
    using region_lookups [of "props_region r"] by auto
  let ?m = "(region_counts_layer,
             \<lparr>location = (snd (c (geometry r)), fst (c (geometry r))),
              shown_count = dict_get cr (props_region r) 0,
              background = colour,
              tooltip = props_region r @ '': ''
                @ str_nat (dict_get cr (props_region r) 0) @ '' sites''\<rparr>)"
  from Cons.prems have rest: "\<forall>r\<in>set fs. props_region r = ''Purple Region''
      \<or> props_region r = ''Green Region'' \<or> props_region r = ''Orange Region''"
    by simp
  from Cons.IH [OF rest, of "added @ [?m]"] obtain ms
    where run: "region_count_markers c cr fs (added @ [?m]) = Inr ((added @ [?m]) @ ms)"
      and each: "\<forall>r\<in>set fs. \<exists>colour.
           map_of REGION_COLOR (props_region r) = Some colour
         \<and> (region_counts_layer,
             \<lparr>location = (snd (c (geometry r)), fst (c (geometry r))),
              shown_count = dict_get cr (props_region r) 0,
              background = colour,
              tooltip = props_region r @ '': ''
                @ str_nat (dict_get cr (props_region r) 0) @ '' sites''\<rparr>)
             \<in> set ms"
    by blast
  have step: "region_count_markers c cr (r # fs) added = Inr (added @ (?m # ms))"
    using run by (simp add: Let_def k dict_index_def add_count_marker_def)
  have "\<forall>r'\<in>set (r # fs). \<exists>colour.
           map_of REGION_COLOR (props_region r') = Some colour
         \<and> (region_counts_layer,
             \<lparr>location = (snd (c (geometry r')), fst (c (geometry r'))),
              shown_count = dict_get cr (props_region r') 0,
              background = colour,
              tooltip = props_region r' @ '': ''
                @ str_nat (dict_get cr (props_region r') 0) @ '' sites''\<rparr>)
             \<in> set (?m # ms)"
    using each k by auto
  with step show ?case by blast
qed

lemma prov_gdf_regions:
  "\<forall>pr\<in>set (prov_gdf str_strip canada_gj). props_region pr = ''Purple Region''
      \<or> props_region pr = ''Green Region'' \<or> props_region pr = ''Orange Region''"
  by (auto dest!: prov_gdf_region province_to_region_cases)

lemma regions_gdf_covers:
  assumes "pr \<in> set provs"
  shows "\<exists>r\<in>set (regions_gdf uu provs). props_region r = props_region pr"
proof -
  from assms have "filter (\<lambda>g. props_region g = props_region pr) provs \<noteq> []"
    by (auto simp: filter_empty_conv)
  then obtain f fs where ne: "filter (\<lambda>g. props_region g = props_region pr) provs = f # fs"
    by (cases "filter (\<lambda>g. props_region g = props_region pr) provs") auto
  from assms have key: "props_region pr \<in> set (groupby_keys (map props_region provs))"
    by (simp add: groupby_keys_def)
  have "\<lparr>props_name = props_name f, props_region = props_region pr,
          geometry = uu (map geometry (f # fs))\<rparr> \<in> set (regions_gdf uu provs)"
    unfolding regions_gdf_def set_map_filter_iff
    by (rule bexI [OF _ key]) (simp add: ne)
  then show ?thesis by (rule bexI [rotated]) simp
qed

lemma regions_gdf_regions:
  assumes "r \<in> set (regions_gdf uu provs)"
  shows "props_region r \<in> props_region ` set provs"
proof -
  from assms obtain reg where key: "reg \<in> set (groupby_keys (map props_region provs))"
    and v: "(case filter (\<lambda>f. props_region f = reg) provs of
               [] \<Rightarrow> None
             | f # fs \<Rightarrow> Some \<lparr>props_name = props_name f, props_region = reg,
                                 geometry = uu (map geometry (f # fs))\<rparr>) = Some r"
    unfolding regions_gdf_def set_map_filter_iff by blast
  from v have "props_region r = reg" by (auto split: list.splits)
  with key show ?thesis by (simp add: groupby_keys_def)
qed

lemma str_nat_0: "str_nat 0 = ''0''"
  by (simp add: str_nat.simps)

lemma no_rows_count_prov:
  "\<forall>row\<in>set d. province_name row \<noteq> n \<Longrightarrow> dict_get (counts_prov d) (reg, n) 0 = 0"
  by (simp add: counts_prov_def dict_get_groupby_size)

lemma no_rows_count_region:
  "\<forall>row\<in>set d. region row \<noteq> reg \<Longrightarrow> dict_get (counts_region d) reg 0 = 0"
  by (simp add: counts_region_def dict_get_groupby_size)

lemma folium_Map_nonempty:
  "d \<noteq> [] \<Longrightarrow> \<exists>m. folium_Map (mean (map lat d)) (mean (map lon d)) = Inr m"
  by (simp add: folium_Map_def mean_def)

text \<open>
  C7 as stated fails when no row of the sheet survives the cleaning, the case in which
  every province of the boundary data has zero matching site records: the mean of no
  coordinates is NaN, \<open>folium.Map\<close> raises \<open>ValueError\<close> at line 120, and the script ends
  before any count marker is created.
\<close>

theorem no_sites_no_markers_counterexample:
  "count_marker_layers id id (Pair 0) sum_list
     [\<lparr>Site_Name = None, Site_User = Some ''Other'', Latitude = Some 64, Longitude = Some (- 96),
       Category = Numeric 1, Province = Some ''NU''\<rparr>]
     [\<lparr>gj_name = ''Nunavut'', gj_geometry = 2\<rparr>]
   = Inl ValueError"
  by (simp add: count_marker_layers_def df_def clean_row_def valid_users_def mean_def
      folium_Map_def)

text \<open>
  C7, as amended. When at least one row of the sheet survives the cleaning, the script
  reaches the end of the two marker loops without an exception, and every province of the
  boundary data (a row of \<open>prov_gdf\<close>, that is a feature whose name is in one of the three
  region sets) that no row of \<open>df\<close> names still gets its marker: in the province count
  group of its region, at its centroid, in the colour of its region, showing 0. Likewise
  the region of a boundary province that has no row in \<open>df\<close> gets a marker in the region
  count layer showing 0.
\<close>

theorem zero_count_markers:
  fixes canada_gj :: "'g gj_feature list"
  assumes "df str_strip str_upper sheet \<noteq> []"
  shows "\<exists>markers.
       count_marker_layers str_strip str_upper centroid unary_union sheet canada_gj = Inr markers
     \<and> (\<forall>pr\<in>set (prov_gdf str_strip canada_gj).
          (\<forall>row\<in>set (df str_strip str_upper sheet). province_name row \<noteq> props_name pr) \<longrightarrow>
          (\<exists>l colour.
             map_of prov_counts_layer_by_region (props_region pr) = Some l
           \<and> map_of REGION_COLOR (props_region pr) = Some colour
           \<and> (l, \<lparr>location = (snd (centroid (geometry pr)), fst (centroid (geometry pr))),
                   shown_count = 0, background = colour,
                   tooltip = props_name pr @ '': 0 sites''\<rparr>) \<in> set markers))
     \<and> (\<forall>pr\<in>set (prov_gdf str_strip canada_gj).
          (\<forall>row\<in>set (df str_strip str_upper sheet). region row \<noteq> props_region pr) \<longrightarrow>
          (\<exists>m. (region_counts_layer, m) \<in> set markers
             \<and> shown_count m = 0
             \<and> tooltip m = props_region pr @ '': 0 sites''))"
proof -
  let ?d = "df str_strip str_upper sheet"
  let ?provs = "prov_gdf str_strip canada_gj"
  let ?regs = "regions_gdf unary_union ?provs"
  from folium_Map_nonempty [OF assms] obtain m
    where centre: "folium_Map (mean (map lat ?d)) (mean (map lon ?d)) = Inr m"
    by blast
  have regs3: "\<forall>r\<in>set ?regs. props_region r = ''Purple Region''
      \<or> props_region r = ''Green Region'' \<or> props_region r = ''Orange Region''"
  proof
    fix r
    assume "r \<in> set ?regs"
    then have "props_region r \<in> props_region ` set ?provs"
      by (rule regions_gdf_regions)
    then obtain pr where "pr \<in> set ?provs" "props_region r = props_region pr"
      by auto
    with prov_gdf_regions [of str_strip canada_gj]
    show "props_region r = ''Purple Region''
      \<or> props_region r = ''Green Region'' \<or> props_region r = ''Orange Region''"
      by simp
  qed
  from region_count_markers_closed [OF regs3,
      where c = centroid and cr = "counts_region ?d" and added = "[]"]
  obtain rms where rrun: "region_count_markers centroid (counts_region ?d) ?regs [] = Inr rms"
    and reach: "\<forall>r\<in>set ?regs. \<exists>colour.
           map_of REGION_COLOR (props_region r) = Some colour
         \<and> (region_counts_layer,
             \<lparr>location = (snd (centroid (geometry r)), fst (centroid (geometry r))),
              shown_count = dict_get (counts_region ?d) (props_region r) 0,
              background = colour,
              tooltip = props_region r @ '': ''
                @ str_nat (dict_get (counts_region ?d) (props_region r) 0)
                @ '' sites''\<rparr>)
             \<in> set rms"
    by auto
  from province_count_markers_closed [OF prov_gdf_regions [of str_strip canada_gj],
      where c = centroid and cp = "counts_prov ?d" and added = rms]
  obtain pms where prun: "province_count_markers centroid (counts_prov ?d) ?provs rms
        = Inr (rms @ pms)"
    and peach: "\<forall>pr\<in>set ?provs. \<exists>l colour.
           map_of prov_counts_layer_by_region (props_region pr) = Some l
         \<and> map_of REGION_COLOR (props_region pr) = Some colour
         \<and> (l, \<lparr>location = (snd (centroid (geometry pr)), fst (centroid (geometry pr))),
                 shown_count = dict_get (counts_prov ?d) (props_region pr, props_name pr) 0,
                 background = colour,
                 tooltip = props_name pr @ '': ''
                   @ str_nat (dict_get (counts_prov ?d) (props_region pr, props_name pr) 0)
                   @ '' sites''\<rparr>)
             \<in> set pms"
    by blast
  have run: "count_marker_layers str_strip str_upper centroid unary_union sheet canada_gj
      = Inr (rms @ pms)"
    by (simp add: count_marker_layers_def Let_def centre rrun prun)
  have a: "\<forall>pr\<in>set ?provs.
          (\<forall>row\<in>set ?d. province_name row \<noteq> props_name pr) \<longrightarrow>
          (\<exists>l colour.
             map_of prov_counts_layer_by_region (props_region pr) = Some l
           \<and> map_of REGION_COLOR (props_region pr) = Some colour
           \<and> (l, \<lparr>location = (snd (centroid (geometry pr)), fst (centroid (geometry pr))),
                   shown_count = 0, background = colour,
                   tooltip = props_name pr @ '': 0 sites''\<rparr>) \<in> set (rms @ pms))"
  proof (intro ballI impI)
    fix pr
    assume pr: "pr \<in> set ?provs"
      and none: "\<forall>row\<in>set ?d. province_name row \<noteq> props_name pr"
    from none have z: "dict_get (counts_prov ?d) (props_region pr, props_name pr) 0 = 0"
      by (rule no_rows_count_prov)
    from bspec [OF peach pr] show "\<exists>l colour.
             map_of prov_counts_layer_by_region (props_region pr) = Some l
           \<and> map_of REGION_COLOR (props_region pr) = Some colour
           \<and> (l, \<lparr>location = (snd (centroid (geometry pr)), fst (centroid (geometry pr))),
                   shown_count = 0, background = colour,
                   tooltip = props_name pr @ '': 0 sites''\<rparr>) \<in> set (rms @ pms)"
      by (auto simp: z str_nat_0)
  qed
  have b: "\<forall>pr\<in>set ?provs.
          (\<forall>row\<in>set ?d. region row \<noteq> props_region pr) \<longrightarrow>
          (\<exists>m. (region_counts_layer, m) \<in> set (rms @ pms)
             \<and> shown_count m = 0
             \<and> tooltip m = props_region pr @ '': 0 sites'')"
  proof (intro ballI impI)
    fix pr
    assume pr: "pr \<in> set ?provs"
      and none: "\<forall>row\<in>set ?d. region row \<noteq> props_region pr"
    from regions_gdf_covers [OF pr, of unary_union] obtain r
      where r: "r \<in> set ?regs" "props_region r = props_region pr" by blast
    from none have z: "dict_get (counts_region ?d) (props_region pr) 0 = 0"
      by (rule no_rows_count_region)
    from bspec [OF reach r(1)] r(2) obtain colour where
      "(region_counts_layer,
             \<lparr>location = (snd (centroid (geometry r)), fst (centroid (geometry r))),
              shown_count = 0, background = colour,
              tooltip = props_region pr @ '': 0 sites''\<rparr>) \<in> set rms"
      by (auto simp: z str_nat_0)
    then have "(region_counts_layer,
             \<lparr>location = (snd (centroid (geometry r)), fst (centroid (geometry r))),
              shown_count = 0, background = colour,
              tooltip = props_region pr @ '': 0 sites''\<rparr>) \<in> set (rms @ pms)"
      by simp
    then show "\<exists>m. (region_counts_layer, m) \<in> set (rms @ pms)
             \<and> shown_count m = 0
             \<and> tooltip m = props_region pr @ '': 0 sites''"
      by force
  qed
  from run a b show ?thesis by blast
qed

text \<open>
  One site in Ontario; Nunavut and the Purple region have none. The names and codes are
  stripped upper-case ASCII text, so the two string parameters are the identity here.
\<close>

theorem zero_count_markers_witness:
  "df id id [\<lparr>Site_Name = None, Site_User = Some ''DFO'', Latitude = Some 45,
              Longitude = Some (- 75), Category = Numeric 1, Province = Some ''ON''\<rparr>] \<noteq> []
   \<and> \<lparr>props_name = ''Nunavut'', props_region = ''Purple Region'', geometry = (2::nat)\<rparr>
     \<in> set (prov_gdf id [\<lparr>gj_name = ''Ontario'', gj_geometry = 1\<rparr>,
                         \<lparr>gj_name = ''Nunavut'', gj_geometry = 2\<rparr>])
   \<and> (\<exists>markers.
        count_marker_layers id id (\<lambda>g. (- real g, 50 + real g)) sum_list
          [\<lparr>Site_Name = None, Site_User = Some ''DFO'', Latitude = Some 45,
             Longitude = Some (- 75), Category = Numeric 1, Province = Some ''ON''\<rparr>]
          [\<lparr>gj_name = ''Ontario'', gj_geometry = 1\<rparr>,
           \<lparr>gj_name = ''Nunavut'', gj_geometry = 2\<rparr>] = Inr markers
      \<and> (prov_counts_purple,
          \<lparr>location = (52, - 2), shown_count = 0, background = ''purple'',
           tooltip = ''Nunavut: 0 sites''\<rparr>) \<in> set markers
      \<and> (\<exists>m. (region_counts_layer, m) \<in> set markers \<and> shown_count m = 0
             \<and> tooltip m = ''Purple Region: 0 sites''))"
proof -
  let ?pr = "\<lparr>props_name = ''Nunavut'', props_region = ''Purple Region'', geometry = (2::nat)\<rparr>"
  let ?gj = "[\<lparr>gj_name = ''Ontario'', gj_geometry = (1::nat)\<rparr>,
              \<lparr>gj_name = ''Nunavut'', gj_geometry = 2\<rparr>]"
  let ?sheet = "[\<lparr>Site_Name = None, Site_User = Some ''DFO'', Latitude = Some 45,
                   Longitude = Some (- 75), Category = Numeric 1, Province = Some ''ON''\<rparr>]"
  have h: "?pr \<in> set (prov_gdf id ?gj)" by code_simp
  have d: "df id id ?sheet = [\<lparr>site_name = None, site_user = ''DFO'', lat = 45, lon = - 75,
      category = 1, ProvCode = ''ON'', province_name = ''Ontario'', region = ''Green Region''\<rparr>]"
    by code_simp
  have ne: "df id id ?sheet \<noteq> []" by (simp add: d)
  have n1: "\<forall>row\<in>set (df id id ?sheet). province_name row \<noteq> props_name ?pr"
    by (simp add: d)
  have n2: "\<forall>row\<in>set (df id id ?sheet). region row \<noteq> props_region ?pr"
    by (simp add: d)
  from zero_count_markers [OF ne, where centroid = "\<lambda>g. (- real g, 50 + real g)"
      and canada_gj = ?gj and unary_union = sum_list]
  obtain ms where
    r1: "count_marker_layers id id (\<lambda>g. (- real g, 50 + real g)) sum_list ?sheet ?gj = Inr ms"
    and p: "\<forall>pr\<in>set (prov_gdf id ?gj).
          (\<forall>row\<in>set (df id id ?sheet). province_name row \<noteq> props_name pr) \<longrightarrow>
          (\<exists>l colour.
             map_of prov_counts_layer_by_region (props_region pr) = Some l
           \<and> map_of REGION_COLOR (props_region pr) = Some colour
           \<and> (l, \<lparr>location = (snd (- real (geometry pr), 50 + real (geometry pr)),
                               fst (- real (geometry pr), 50 + real (geometry pr))),
                   shown_count = 0, background = colour,
                   tooltip = props_name pr @ '': 0 sites''\<rparr>) \<in> set ms)"
    and r: "\<forall>pr\<in>set (prov_gdf id ?gj).
          (\<forall>row\<in>set (df id id ?sheet). region row \<noteq> props_region pr) \<longrightarrow>
          (\<exists>m. (region_counts_layer, m) \<in> set ms
             \<and> shown_count m = 0
             \<and> tooltip m = props_region pr @ '': 0 sites'')"
    by blast
  from p h n1 have "(prov_counts_purple,
          \<lparr>location = (52, - 2), shown_count = 0, background = ''purple'',
           tooltip = ''Nunavut: 0 sites''\<rparr>) \<in> set ms"
    by (auto simp: prov_counts_layer_by_region_def REGION_COLOR_def)
  moreover from r h n2 have "\<exists>m. (region_counts_layer, m) \<in> set ms \<and> shown_count m = 0
             \<and> tooltip m = ''Purple Region: 0 sites''"
    by fastforce
  ultimately show ?thesis using ne h r1 by blast
qed

end
